theory Spec2Isabelle
  imports Main
begin

section \<open>Movie Explorer: the client's profile store, caches and request coordination\<close>

text \<open>
  A shallow embedding of the parts of \<^verbatim>\<open>main.js\<close> and \<^verbatim>\<open>config.js\<close> that own the
  user profile, the result caches, the per-channel abort controllers, the suggestion
  pipeline and the search flow. Module-level variables of the script become fields of
  explicit state records; every function that mutates them takes the state and returns
  the new one. A movie id is an integer, \<^verbatim>\<open>Date.now()\<close> is an integer number of
  milliseconds, and a string is a list of code units below 256.
\<close>

subsection \<open>The user profile\<close>

type_synonym movie_id = int

text \<open>
  The fields of \<^verbatim>\<open>userProfile\<close> that the functions below read or write.
  \<^verbatim>\<open>saveUserProfile\<close> stamps the profile and serialises it to local storage; it
  changes none of these fields, so it has no counterpart here.
\<close>

record profile =
  safe_mode :: bool
  language :: "string list"
  mood :: string
  watchlist :: "movie_id list"
  history :: "movie_id list"
  liked_movies :: "movie_id list"
  disliked_movies :: "movie_id list"

definition initial_profile :: profile where
  "initial_profile =
     \<lparr>safe_mode = True, language = [''en''], mood = ''happy'', watchlist = [],
      history = [], liked_movies = [], disliked_movies = []\<rparr>"

text \<open>
  \<^verbatim>\<open>addToHistory\<close>: only an id that is not yet in the list is put in front
  (\<^verbatim>\<open>unshift\<close>), and only then is the list cut to its first 100 entries.
\<close>

definition addToHistory :: "movie_id \<Rightarrow> profile \<Rightarrow> profile" where
  "addToHistory movieId p =
     (if movieId \<notin> set (history p) then
        (let h = movieId # history p
         in p\<lparr>history := (if length h > 100 then take 100 h else h)\<rparr>)
      else p)"

text \<open>
  \<^verbatim>\<open>rateMovie\<close>: \<^verbatim>\<open>push\<close> appends at the end, \<^verbatim>\<open>filter\<close> drops every
  occurrence of the id from the opposite list.
\<close>

definition rateMovie :: "movie_id \<Rightarrow> bool \<Rightarrow> profile \<Rightarrow> profile" where
  "rateMovie movieId liked p =
     (if liked then
        (let l = (if movieId \<notin> set (liked_movies p) then liked_movies p @ [movieId]
                  else liked_movies p)
         in p\<lparr>liked_movies := l,
              disliked_movies := filter (\<lambda>i. i \<noteq> movieId) (disliked_movies p)\<rparr>)
      else
        (let d = (if movieId \<notin> set (disliked_movies p) then disliked_movies p @ [movieId]
                  else disliked_movies p)
         in p\<lparr>disliked_movies := d,
              liked_movies := filter (\<lambda>i. i \<noteq> movieId) (liked_movies p)\<rparr>))"

text \<open>
  \<^verbatim>\<open>toggleWatchlist\<close>, on the ids: \<^verbatim>\<open>findIndex\<close> finds the first entry with
  the id and \<^verbatim>\<open>splice\<close> removes that one entry; an absent id is appended.
\<close>

definition toggleWatchlist :: "movie_id \<Rightarrow> profile \<Rightarrow> profile" where
  "toggleWatchlist movieId p =
     (if movieId \<in> set (watchlist p) then p\<lparr>watchlist := remove1 movieId (watchlist p)\<rparr>
      else p\<lparr>watchlist := watchlist p @ [movieId]\<rparr>)"

text \<open>
  Every place of the script that assigns to a field of \<^verbatim>\<open>userProfile\<close>: the
  rating buttons, the search flow's history entry, the watchlist toggle, the mood buttons,
  the language selector and the profile form (\<^verbatim>\<open>saveProfile\<close> falls back to
  \<^verbatim>\<open>['en']\<close> when no language is selected).
\<close>

datatype mutation =
    Rate movie_id bool
  | AddToHistory movie_id
  | ToggleWatchlist movie_id
  | SetMood string
  | SelectLanguages "string list"
  | SaveProfile bool "string list"

fun mutate :: "mutation \<Rightarrow> profile \<Rightarrow> profile" where
  "mutate (Rate movieId liked) p = rateMovie movieId liked p"
| "mutate (AddToHistory movieId) p = addToHistory movieId p"
| "mutate (ToggleWatchlist movieId) p = toggleWatchlist movieId p"
| "mutate (SetMood m) p = p\<lparr>mood := m\<rparr>"
| "mutate (SelectLanguages ls) p = p\<lparr>language := ls\<rparr>"
| "mutate (SaveProfile safeMode ls) p =
     p\<lparr>safe_mode := safeMode, language := (if ls \<noteq> [] then ls else [''en''])\<rparr>"

text \<open>The profile after a sequence of mutations, applied from left to right.\<close>

definition mutations :: "mutation list \<Rightarrow> profile \<Rightarrow> profile" where
  "mutations ms p = fold mutate ms p"

subsection \<open>Strings\<close>

text \<open>
  The string methods the script calls. \<^verbatim>\<open>trim\<close> strips the white space and line
  terminators of ECMAScript that lie below 256; \<^verbatim>\<open>toLowerCase\<close> maps the upper-case
  letters below 256 (A to Z and the accented capitals, not the multiplication sign) to
  the code unit 32 above.
\<close>

definition is_space :: "char \<Rightarrow> bool" where
  "is_space c = (c \<in> {CHR 0x09, CHR 0x0A, CHR 0x0B, CHR 0x0C, CHR 0x0D, CHR 0x20, CHR 0xA0})"

definition trim :: "string \<Rightarrow> string" where
  "trim s = rev (dropWhile is_space (rev (dropWhile is_space s)))"

definition lower_char :: "char \<Rightarrow> char" where
  "lower_char c =
     (let n = (of_char c :: nat)
      in if (65 \<le> n \<and> n \<le> 90) \<or> (192 \<le> n \<and> n \<le> 222 \<and> n \<noteq> 215)
         then char_of (n + 32) else c)"

definition toLowerCase :: "string \<Rightarrow> string" where
  "toLowerCase s = map lower_char s"

definition startsWith :: "string \<Rightarrow> string \<Rightarrow> bool" where
  "startsWith s p = (take (length p) s = p)"

fun includes_str :: "string \<Rightarrow> string \<Rightarrow> bool" where
  "includes_str [] p = (p = [])"
| "includes_str (c # s) p = (startsWith (c # s) p \<or> includes_str s p)"

fun join :: "string \<Rightarrow> string list \<Rightarrow> string" where
  "join sep [] = []"
| "join sep [x] = x"
| "join sep (x # y # ys) = x @ sep @ join sep (y # ys)"

subsection \<open>Configuration\<close>

text \<open>
  \<^verbatim>\<open>Config.getEnvVar\<close> takes a value from \<^verbatim>\<open>process.env\<close> only when it is there
  and truthy (a non-empty string), and the built-in default otherwise; in a browser the
  environment is empty. Only the two settings that \<^verbatim>\<open>getMoviePoster\<close> reads are
  kept.
\<close>

record config =
  IMAGE_BASE_URL :: string
  FALLBACK_POSTER_URL :: string

definition getEnvVar :: "(string \<rightharpoonup> string) \<Rightarrow> string \<Rightarrow> string \<Rightarrow> string" where
  "getEnvVar env key defaultValue =
     (case env key of
        Some v \<Rightarrow> if v \<noteq> [] then v else defaultValue
      | None \<Rightarrow> defaultValue)"

definition loadConfig :: "(string \<rightharpoonup> string) \<Rightarrow> config" where
  "loadConfig env =
     \<lparr>IMAGE_BASE_URL = getEnvVar env ''IMAGE_BASE_URL'' ''https://image.tmdb.org/t/p/w500'',
      FALLBACK_POSTER_URL =
        getEnvVar env ''FALLBACK_POSTER_URL''
          ''https://dummyimage.com/500x750/1f2937/9ca3af&text=No+Poster''\<rparr>"

subsection \<open>Movies and their posters\<close>

text \<open>
  A poster field of a movie object can hold any JavaScript value. \<^verbatim>\<open>getMoviePoster\<close>
  looks at a field only through \<^verbatim>\<open>!candidate\<close> and \<^verbatim>\<open>String(candidate)\<close>, so
  a value is one of: \<open>Falsy\<close> (undefined, null, false, 0, NaN); a string; \<open>Truthy s\<close>,
  any other truthy value (a number, an array, an object) whose string conversion is
  \<open>s\<close>; or \<open>NoString\<close>, an object that has no string conversion, such as the JSON
  value \<^verbatim>\<open>{"toString": null}\<close>, for which \<^verbatim>\<open>String\<close> throws a
  \<^verbatim>\<open>TypeError\<close>.
\<close>

datatype jsval = Falsy | Str string | Truthy string | NoString

datatype error = TypeError

fun truthy :: "jsval \<Rightarrow> bool" where
  "truthy Falsy = False"
| "truthy (Str s) = (s \<noteq> [])"
| "truthy (Truthy s) = True"
| "truthy NoString = True"

fun String :: "jsval \<Rightarrow> error + string" where
  "String Falsy = Inr []"
| "String (Str s) = Inr s"
| "String (Truthy s) = Inr s"
| "String NoString = Inl TypeError"

record movie =
  movie_id :: movie_id
  title :: string
  adult :: bool
  poster_path :: jsval
  poster :: jsval
  posterUrl :: jsval
  poster_url :: jsval
  image_url :: jsval
  image' :: jsval
  poster_path_hq :: jsval
  backdrop_path :: jsval

text \<open>An object literal with a title and an id only, as the local suggestion list has them.\<close>

definition plain_movie :: "string \<Rightarrow> movie_id \<Rightarrow> movie" where
  "plain_movie t i =
     \<lparr>movie_id = i, title = t, adult = False, poster_path = Falsy, poster = Falsy,
      posterUrl = Falsy, poster_url = Falsy, image_url = Falsy, image' = Falsy,
      poster_path_hq = Falsy, backdrop_path = Falsy\<rparr>"

text \<open>The argument of \<^verbatim>\<open>getMoviePoster\<close>: a movie object, or anything that is not an object.\<close>

datatype poster_arg = NonObject | Object movie

definition candidates :: "movie \<Rightarrow> jsval list" where
  "candidates m =
     [poster_path m, poster m, posterUrl m, poster_url m, image_url m, image' m,
      poster_path_hq m, backdrop_path m]"

text \<open>The chain of \<^verbatim>\<open>return\<close>s the loop body runs once a candidate is not skipped.\<close>

definition poster_of_raw :: "config \<Rightarrow> string \<Rightarrow> string" where
  "poster_of_raw cfg raw =
     (if startsWith raw ''data:image'' then raw
      else if startsWith raw ''http'' then raw
      else if startsWith raw ''//'' then ''https:'' @ raw
      else if includes_str raw ''image.tmdb.org'' then
        (if startsWith raw ''http'' then raw else ''https:'' @ raw)
      else if startsWith raw ''/'' then IMAGE_BASE_URL cfg @ raw
      else IMAGE_BASE_URL cfg @ ''/'' @ dropWhile (\<lambda>c. c = CHR ''/'') raw)"

text \<open>
  The \<^verbatim>\<open>for\<close> loop over the candidates, with its two \<^verbatim>\<open>continue\<close> tests;
  an exception of \<^verbatim>\<open>String\<close> ends the function.
\<close>

fun poster_loop :: "config \<Rightarrow> jsval list \<Rightarrow> error + string" where
  "poster_loop cfg [] = Inr (FALLBACK_POSTER_URL cfg)"
| "poster_loop cfg (candidate # rest) =
     (if \<not> truthy candidate then poster_loop cfg rest
      else
        (case String candidate of
           Inl e \<Rightarrow> Inl e
         | Inr s \<Rightarrow>
             (let raw = trim s
              in if raw = [] \<or> raw = ''null'' \<or> raw = ''None'' \<or> raw = ''undefined''
                    \<or> toLowerCase raw = ''nan''
                 then poster_loop cfg rest
                 else Inr (poster_of_raw cfg raw))))"

definition getMoviePoster :: "config \<Rightarrow> poster_arg \<Rightarrow> error + string" where
  "getMoviePoster cfg arg =
     (case arg of
        NonObject \<Rightarrow> Inr (FALLBACK_POSTER_URL cfg)
      | Object m \<Rightarrow> poster_loop cfg (candidates m))"

text \<open>
  A candidate is usable when the loop converts it and does not skip it: it is truthy,
  and its trimmed string conversion is neither empty nor one of the spelled-out null
  values. The loop stops at the first candidate that is usable or has no string
  conversion.
\<close>

definition usable :: "jsval \<Rightarrow> bool" where
  "usable c =
     (case String c of
        Inl e \<Rightarrow> False
      | Inr s \<Rightarrow>
          truthy c \<and> trim s \<noteq> [] \<and> trim s \<noteq> ''null'' \<and> trim s \<noteq> ''None''
          \<and> trim s \<noteq> ''undefined'' \<and> toLowerCase (trim s) \<noteq> ''nan'')"

definition stops_loop :: "jsval \<Rightarrow> bool" where
  "stops_loop c = (c = NoString \<or> usable c)"

text \<open>What the loop returns at the candidate it stops at.\<close>

definition poster_at :: "config \<Rightarrow> jsval \<Rightarrow> error + string" where
  "poster_at cfg c =
     (case String c of Inl e \<Rightarrow> Inl e | Inr s \<Rightarrow> Inr (poster_of_raw cfg (trim s)))"

subsection \<open>The result caches and their keys\<close>

text \<open>
  \<^verbatim>\<open>searchResultCache\<close> and \<^verbatim>\<open>suggestionCache\<close> map a key to an object
  \<^verbatim>\<open>{ results, time }\<close>. Both lookups of the script read
  \<^verbatim>\<open>cached && (Date.now() - cached.time) < CACHE_TTL_MS\<close>; both stores use
  \<^verbatim>\<open>Map.set\<close>, which replaces an older entry of the key.
\<close>

record 'v entry =
  results :: 'v
  time :: int

type_synonym 'v cache = "string \<rightharpoonup> 'v entry"

definition CACHE_TTL_MS :: int where
  "CACHE_TTL_MS = 30000"

definition cache_lookup :: "'v cache \<Rightarrow> string \<Rightarrow> int \<Rightarrow> 'v option" where
  "cache_lookup c key now =
     (case c key of
        None \<Rightarrow> None
      | Some cached \<Rightarrow> if now - time cached < CACHE_TTL_MS then Some (results cached) else None)"

definition cache_store :: "'v cache \<Rightarrow> string \<Rightarrow> 'v \<Rightarrow> int \<Rightarrow> 'v cache" where
  "cache_store c key v now = c(key \<mapsto> \<lparr>results = v, time = now\<rparr>)"

text \<open>
  \<^verbatim>\<open>URLSearchParams.toString()\<close> serialises each value as
  \<^verbatim>\<open>application/x-www-form-urlencoded\<close>: the value is encoded as UTF-8 (a code unit
  from 128 to 255 becomes two bytes); a space becomes \<^verbatim>\<open>+\<close>; ASCII letters, digits
  and \<^verbatim>\<open>* - . _\<close> stay; every other byte becomes \<^verbatim>\<open>%\<close> and two upper-case
  hexadecimal digits.
\<close>

definition utf8 :: "char \<Rightarrow> nat list" where
  "utf8 c =
     (let n = (of_char c :: nat)
      in if n < 128 then [n] else [192 + n div 64, 128 + n mod 64])"

definition form_safe :: "nat \<Rightarrow> bool" where
  "form_safe b =
     ((48 \<le> b \<and> b \<le> 57) \<or> (65 \<le> b \<and> b \<le> 90) \<or> (97 \<le> b \<and> b \<le> 122)
      \<or> b = 42 \<or> b = 45 \<or> b = 46 \<or> b = 95)"

definition hex_digit :: "nat \<Rightarrow> char" where
  "hex_digit d = (if d < 10 then char_of (48 + d) else char_of (55 + d))"

definition form_byte :: "nat \<Rightarrow> string" where
  "form_byte b =
     (if b = 32 then ''+''
      else if form_safe b then [char_of b]
      else [CHR ''%'', hex_digit (b div 16), hex_digit (b mod 16)])"

definition form_urlencode :: "string \<Rightarrow> string" where
  "form_urlencode s = concat (map form_byte (concat (map utf8 s)))"

text \<open>
  The key of the search cache is the parameter string of the request:
  \<^verbatim>\<open>query\<close>, then \<^verbatim>\<open>safe_mode\<close> when the profile has it set, then
  \<^verbatim>\<open>languages\<close> when the language list is not empty, then \<^verbatim>\<open>limit\<close>.
\<close>

definition searchCacheKey :: "string \<Rightarrow> profile \<Rightarrow> string" where
  "searchCacheKey query p =
     ''query='' @ form_urlencode query
     @ (if safe_mode p then ''&safe_mode=true'' else [])
     @ (if language p \<noteq> [] then ''&languages='' @ form_urlencode (join '','' (language p))
        else [])
     @ ''&limit=10''"

text \<open>
  The key of the suggestion cache is the template string
  \<^verbatim>\<open>`${query}|${(userProfile.language||[]).join(',')}|${userProfile.safe_mode?'1':'0'}`\<close>.
\<close>

definition suggestionCacheKey :: "string \<Rightarrow> profile \<Rightarrow> string" where
  "suggestionCacheKey query p =
     query @ ''|'' @ join '','' (language p) @ ''|'' @ (if safe_mode p then ''1'' else ''0'')"

text \<open>The parameter string of a suggestion request: query, limit, safe mode, languages.\<close>

definition suggestion_params :: "string \<Rightarrow> profile \<Rightarrow> string" where
  "suggestion_params query p =
     ''query='' @ form_urlencode query @ ''&limit=6''
     @ (if safe_mode p then ''&safe_mode=true'' else [])
     @ (if language p \<noteq> [] then ''&languages='' @ form_urlencode (join '','' (language p))
        else [])"


subsection \<open>The state of the page\<close>

text \<open>
  What a request to the backend can deliver: the parsed JSON body, or a rejection (the
  network failed, the body was not JSON, or the request was aborted). A body is an array
  of movies, the value \<^verbatim>\<open>null\<close>, or something else that is not an array and has no
  \<^verbatim>\<open>length\<close> (an error object, a number, a boolean). A body that is a JSON string
  is left out: the backend answers with arrays and error objects.
\<close>

datatype response = Array "movie list" | NonArray | Null

datatype outcome = Resolved response | Rejected

text \<open>
  The \<^verbatim>\<open>fetch\<close> calls of the flows below, as the network sees them: the parameter
  string (for the recommendations of a movie, its id) and the abort controller whose
  signal was passed. The request for personalised recommendations passes no signal.
\<close>

datatype request =
    SuggestionsRequest string nat
  | SearchRequest string nat
  | RecommendationsRequest movie_id nat
  | UserRecommendationsRequest

datatype channel = Suggestions | Search | Recommendations

text \<open>What the container of the personalised recommendations shows.\<close>

datatype user_recs_view = Untouched | Loading | Cards "movie list" | WatchMore

text \<open>
  The module-level variables, the abort controllers and the parts of the document the
  flows write. An abort controller is named by the number of controllers created before
  it; \<open>aborted\<close> lists the controllers whose \<^verbatim>\<open>abort()\<close> was called, in call order.
  A container of movie cards is the list of movies it shows (the empty list is its
  "No movies found" text). \<open>focus_calls\<close> counts the calls of
  \<^verbatim>\<open>search-input.focus()\<close>; the focus listener, which the browser runs when the
  input was not focused before, is the function \<open>focus_listener\<close> below.
\<close>

record app =
  userProfile :: profile
  searchResultCache :: "response cache"
  suggestionCache :: "movie list cache"
  currentSuggestions :: "movie list"
  selectedSuggestionIndex :: int
  suggestionsController :: "nat option"
  searchController :: "nat option"
  recsController :: "nat option"
  controllers :: nat
  aborted :: "nat list"
  requests :: "request list"
  suggestions_hidden :: bool
  suggestions_content :: "movie list"
  search_results_hidden :: bool
  search_movies :: "movie list"
  recommendations_hidden :: bool
  recommendation_movies :: "movie list"
  user_recommendation_movies :: user_recs_view
  loading_spinner_hidden :: bool
  focus_calls :: nat

definition initial_app :: app where
  "initial_app =
     \<lparr>userProfile = initial_profile, searchResultCache = Map.empty,
      suggestionCache = Map.empty, currentSuggestions = [], selectedSuggestionIndex = - 1,
      suggestionsController = None, searchController = None, recsController = None,
      controllers = 0, aborted = [], requests = [],
      suggestions_hidden = True, suggestions_content = [],
      search_results_hidden = True, search_movies = [],
      recommendations_hidden = True, recommendation_movies = [],
      user_recommendation_movies = Untouched, loading_spinner_hidden = True,
      focus_calls = 0\<rparr>"

subsection \<open>Abort controllers, one variable per channel\<close>

definition controller_of :: "channel \<Rightarrow> app \<Rightarrow> nat option" where
  "controller_of ch st =
     (case ch of
        Suggestions \<Rightarrow> suggestionsController st
      | Search \<Rightarrow> searchController st
      | Recommendations \<Rightarrow> recsController st)"

text \<open>\<^verbatim>\<open>if (c) { c.abort(); }\<close> for the controller \<open>c\<close> a variable holds.\<close>

definition abort :: "nat option \<Rightarrow> app \<Rightarrow> app" where
  "abort c st = (case c of None \<Rightarrow> st | Some k \<Rightarrow> st\<lparr>aborted := aborted st @ [k]\<rparr>)"

text \<open>\<^verbatim>\<open>c = new AbortController()\<close> for the variable of a channel.\<close>

definition new_controller :: "channel \<Rightarrow> app \<Rightarrow> nat \<times> app" where
  "new_controller ch st =
     (let k = controllers st;
          st1 = st\<lparr>controllers := Suc k\<rparr>
      in (k, case ch of
               Suggestions \<Rightarrow> st1\<lparr>suggestionsController := Some k\<rparr>
             | Search \<Rightarrow> st1\<lparr>searchController := Some k\<rparr>
             | Recommendations \<Rightarrow> st1\<lparr>recsController := Some k\<rparr>))"

text \<open>
  The two statements every flow runs before it fetches: abort the controller the channel
  holds, then put a new one in its place.
\<close>

definition begin_request :: "channel \<Rightarrow> app \<Rightarrow> nat \<times> app" where
  "begin_request ch st = new_controller ch (abort (controller_of ch st) st)"

text \<open>
  Every controller that exists was created by \<open>new_controller\<close>: the ones the variables
  hold and the aborted ones are below the count of controllers.
\<close>

definition controllers_created :: "app \<Rightarrow> bool" where
  "controllers_created st =
     (list_all (\<lambda>k. k < controllers st) (aborted st)
      \<and> (case suggestionsController st of None \<Rightarrow> True | Some k \<Rightarrow> k < controllers st)
      \<and> (case searchController st of None \<Rightarrow> True | Some k \<Rightarrow> k < controllers st)
      \<and> (case recsController st of None \<Rightarrow> True | Some k \<Rightarrow> k < controllers st))"

text \<open>
  Every controller created so far is aborted, unless it is the one a channel holds.
\<close>

definition others_aborted :: "app \<Rightarrow> bool" where
  "others_aborted st =
     list_all (\<lambda>k. k \<in> set (aborted st) \<or> suggestionsController st = Some k
                 \<or> searchController st = Some k \<or> recsController st = Some k)
       [0..<controllers st]"

text \<open>The part of the state the controllers live in.\<close>

definition controller_state :: "app \<Rightarrow> nat \<times> nat list \<times> nat option \<times> nat option \<times> nat option" where
  "controller_state st =
     (controllers st, aborted st, suggestionsController st, searchController st,
      recsController st)"

text \<open>
  \<^verbatim>\<open>fetch\<close> with the signal of a controller: once the controller is aborted, the
  promise (and the reading of the body) rejects with an \<^verbatim>\<open>AbortError\<close>, whatever
  the network delivered.
\<close>

definition delivered :: "app \<Rightarrow> nat \<Rightarrow> outcome \<Rightarrow> outcome" where
  "delivered st c out = (if c \<in> set (aborted st) then Rejected else out)"

subsection \<open>Suggestions\<close>

definition commonMovies :: "movie list" where
  "commonMovies =
     [plain_movie ''The Dark Knight'' 155, plain_movie ''Inception'' 27205,
      plain_movie ''Interstellar'' 157336, plain_movie ''The Matrix'' 603,
      plain_movie ''Pulp Fiction'' 680, plain_movie ''The Godfather'' 238,
      plain_movie ''Avatar'' 19995, plain_movie ''Titanic'' 597,
      plain_movie ''Star Wars'' 11, plain_movie ''The Avengers'' 24428]"

definition getImmediateSuggestions :: "string \<Rightarrow> movie list" where
  "getImmediateSuggestions query =
     (let queryLower = toLowerCase query
      in take 4 (filter (\<lambda>m. includes_str (toLowerCase (title m)) queryLower) commonMovies))"

definition hideSuggestions :: "app \<Rightarrow> app" where
  "hideSuggestions st = st\<lparr>suggestions_hidden := True, selectedSuggestionIndex := - 1\<rparr>"

text \<open>
  \<^verbatim>\<open>displaySuggestions\<close> returns before it resets the selection when the list is
  empty.
\<close>

definition displaySuggestions :: "movie list \<Rightarrow> app \<Rightarrow> app" where
  "displaySuggestions suggestions st =
     (if suggestions = [] then st\<lparr>suggestions_content := [], suggestions_hidden := False\<rparr>
      else st\<lparr>suggestions_content := suggestions, suggestions_hidden := False,
              selectedSuggestionIndex := - 1\<rparr>)"

text \<open>
  An asynchronous function runs until it has to wait; what it then waits for, with the
  local variables the rest of its body needs, is a value of \<open>pending\<close>.
\<close>

datatype pending =
    Finished
  | SuggestionsFetch nat string
  | SearchFetch nat string
  | SearchDisplay movie_id
  | RecommendationsFetch nat

text \<open>
  \<^verbatim>\<open>getSearchSuggestions\<close> up to its \<^verbatim>\<open>fetch\<close>. A suggestion request waits
  with its controller and its cache key.
\<close>

definition getSearchSuggestions :: "string \<Rightarrow> int \<Rightarrow> app \<Rightarrow> app \<times> pending" where
  "getSearchSuggestions query now st =
     (if trim query = [] \<or> length query < 2 then (hideSuggestions st, Finished)
      else if length query \<le> 3 \<and> getImmediateSuggestions query \<noteq> [] then
        (displaySuggestions (getImmediateSuggestions query)
           (st\<lparr>currentSuggestions := getImmediateSuggestions query\<rparr>), Finished)
      else
        (let cacheKey = suggestionCacheKey query (userProfile st)
         in case cache_lookup (suggestionCache st) cacheKey now of
              Some cached \<Rightarrow>
                (displaySuggestions cached (st\<lparr>currentSuggestions := cached\<rparr>), Finished)
            | None \<Rightarrow>
                (let (c, st1) = begin_request Suggestions st;
                     st2 = st1\<lparr>requests := requests st1
                             @ [SuggestionsRequest (suggestion_params query (userProfile st1)) c]\<rparr>
                 in (st2, SuggestionsFetch c cacheKey))))"

text \<open>
  The rest of \<^verbatim>\<open>getSearchSuggestions\<close>, run when its request settles at time
  \<open>now\<close>: an array is shown and cached, anything else and every rejection (the
  \<^verbatim>\<open>catch\<close> block does not look at the error) shows the empty list.
\<close>

definition suggestions_settled :: "nat \<Rightarrow> string \<Rightarrow> outcome \<Rightarrow> int \<Rightarrow> app \<Rightarrow> app" where
  "suggestions_settled c cacheKey out now st =
     (case delivered st c out of
        Resolved (Array rs) \<Rightarrow>
          (let st1 = displaySuggestions rs (st\<lparr>currentSuggestions := rs\<rparr>)
           in st1\<lparr>suggestionCache := cache_store (suggestionCache st1) cacheKey rs now\<rparr>)
      | Resolved _ \<Rightarrow> displaySuggestions [] (st\<lparr>currentSuggestions := []\<rparr>)
      | Rejected \<Rightarrow> displaySuggestions [] (st\<lparr>currentSuggestions := []\<rparr>))"

subsection \<open>Search and the recommendations of its first result\<close>

text \<open>
  \<^verbatim>\<open>displayMovies\<close> drops adult movies in safe mode and shows at most ten cards.
\<close>

definition displayed :: "profile \<Rightarrow> movie list \<Rightarrow> movie list" where
  "displayed p movies = take 10 (filter (\<lambda>m. \<not> (safe_mode p \<and> adult m)) movies)"

text \<open>
  What \<^verbatim>\<open>searchMovies\<close> does with the results, from the cache or from the network.
  With a first result it records it in the history, shows the results and waits for
  \<^verbatim>\<open>displayMovies\<close>. For the body \<^verbatim>\<open>null\<close> the test
  \<^verbatim>\<open>results.length > 0\<close> throws, the \<^verbatim>\<open>catch\<close> block logs, and the function
  ends. Otherwise (an empty array, or a body without a \<^verbatim>\<open>length\<close>) it hides both
  sections, puts the focus on the search input and ends. Ending hides the spinner.
\<close>

definition show_search_results :: "response \<Rightarrow> app \<Rightarrow> app \<times> pending" where
  "show_search_results rs st =
     (case rs of
        Array (first # rest) \<Rightarrow>
          (let st1 = st\<lparr>userProfile := addToHistory (movie_id first) (userProfile st)\<rparr>;
               st2 = st1\<lparr>search_results_hidden := False,
                         search_movies := displayed (userProfile st1) (first # rest)\<rparr>
           in (st2, SearchDisplay (movie_id first)))
      | Null \<Rightarrow> (st\<lparr>loading_spinner_hidden := True\<rparr>, Finished)
      | _ \<Rightarrow>
          (st\<lparr>search_results_hidden := True, recommendations_hidden := True,
              focus_calls := Suc (focus_calls st), loading_spinner_hidden := True\<rparr>,
           Finished))"

text \<open>\<^verbatim>\<open>searchMovies\<close> up to its first \<^verbatim>\<open>await\<close>.\<close>

definition searchMovies :: "string \<Rightarrow> int \<Rightarrow> app \<Rightarrow> app \<times> pending" where
  "searchMovies query now st =
     (if trim query = [] then (st, Finished)
      else
        (let st1 = hideSuggestions (st\<lparr>loading_spinner_hidden := False\<rparr>);
             st2 = abort (searchController st1) st1;
             st3 = abort (recsController st2) st2;
             (c, st4) = new_controller Search st3;
             cacheKey = searchCacheKey query (userProfile st4)
         in case cache_lookup (searchResultCache st4) cacheKey now of
              Some cached \<Rightarrow> show_search_results cached st4
            | None \<Rightarrow>
                (st4\<lparr>requests := requests st4 @ [SearchRequest cacheKey c]\<rparr>,
                 SearchFetch c cacheKey)))"

text \<open>
  The search request settles at time \<open>now\<close>: a rejection is logged and ends the
  function; a body is cached and handled as above.
\<close>

definition search_settled :: "nat \<Rightarrow> string \<Rightarrow> outcome \<Rightarrow> int \<Rightarrow> app \<Rightarrow> app \<times> pending" where
  "search_settled c cacheKey out now st =
     (case delivered st c out of
        Rejected \<Rightarrow> (st\<lparr>loading_spinner_hidden := True\<rparr>, Finished)
      | Resolved rs \<Rightarrow>
          show_search_results rs
            (st\<lparr>searchResultCache := cache_store (searchResultCache st) cacheKey rs now\<rparr>))"

text \<open>
  After \<^verbatim>\<open>displayMovies\<close>: the recommendations of the first result are requested
  under a new controller of the recommendations channel.
\<close>

definition search_displayed :: "movie_id \<Rightarrow> app \<Rightarrow> app \<times> pending" where
  "search_displayed firstId st =
     (let (c, st1) = begin_request Recommendations st
      in (st1\<lparr>requests := requests st1 @ [RecommendationsRequest firstId c]\<rparr>,
          RecommendationsFetch c))"

text \<open>
  \<^verbatim>\<open>displayMovies\<close> can also reject: a card is not built when
  \<^verbatim>\<open>getMoviePoster\<close> throws for its movie. The \<^verbatim>\<open>catch\<close> block logs and the
  function ends, with no request for recommendations.
\<close>

definition search_display_failed :: "app \<Rightarrow> app" where
  "search_display_failed st = st\<lparr>loading_spinner_hidden := True\<rparr>"

text \<open>
  The request for recommendations settles; the function ends either way. For the body
  \<^verbatim>\<open>null\<close> the test \<^verbatim>\<open>recommendations.length > 0\<close> throws and nothing is
  shown or hidden.
\<close>

definition recommendations_settled :: "nat \<Rightarrow> outcome \<Rightarrow> app \<Rightarrow> app" where
  "recommendations_settled c out st =
     (case delivered st c out of
        Rejected \<Rightarrow> st\<lparr>loading_spinner_hidden := True\<rparr>
      | Resolved (Array (r # rs)) \<Rightarrow>
          st\<lparr>recommendations_hidden := False,
             recommendation_movies := displayed (userProfile st) (r # rs),
             loading_spinner_hidden := True\<rparr>
      | Resolved Null \<Rightarrow> st\<lparr>loading_spinner_hidden := True\<rparr>
      | Resolved _ \<Rightarrow> st\<lparr>recommendations_hidden := True, loading_spinner_hidden := True\<rparr>)"

subsection \<open>Personalised recommendations\<close>

text \<open>
  The timer callback of \<^verbatim>\<open>loadPersonalizedRecommendations\<close>: it replaces the
  controller of the recommendations channel and shows a spinner, then calls
  \<^verbatim>\<open>fetchPersonalizedRecommendations\<close>, whose \<^verbatim>\<open>fetch\<close> is given no signal.
\<close>

definition personalized_started :: "app \<Rightarrow> app" where
  "personalized_started st =
     (let (c, st1) = begin_request Recommendations st
      in st1\<lparr>user_recommendation_movies := Loading,
              requests := requests st1 @ [UserRecommendationsRequest]\<rparr>)"

text \<open>
  \<^verbatim>\<open>fetchPersonalizedRecommendations\<close> turns everything but an array into the empty
  list; the callback shows the movies, or an invitation to watch more.
\<close>

definition personalized_settled :: "outcome \<Rightarrow> app \<Rightarrow> app" where
  "personalized_settled out st =
     (let recommendedMovies = (case out of Resolved (Array ms) \<Rightarrow> ms | _ \<Rightarrow> [])
      in if recommendedMovies \<noteq> [] then
           st\<lparr>user_recommendation_movies := Cards (displayed (userProfile st) recommendedMovies)\<rparr>
         else st\<lparr>user_recommendation_movies := WatchMore\<rparr>)"

subsection \<open>The focus listener and the events of the page\<close>

text \<open>
  The \<^verbatim>\<open>focus\<close> listener of the search input, the input holding \<open>v\<close>: a local
  match for a query of length 2 or 3 is shown at once, every other query of at least two
  characters goes to \<^verbatim>\<open>getSearchSuggestions\<close>.
\<close>

definition focus_listener :: "string \<Rightarrow> int \<Rightarrow> app \<Rightarrow> app \<times> pending" where
  "focus_listener v now st =
     (let query = trim v
      in if 2 \<le> length query then
           (if length query \<le> 3 \<and> getImmediateSuggestions query \<noteq> [] then
              (displaySuggestions (getImmediateSuggestions query)
                 (st\<lparr>currentSuggestions := getImmediateSuggestions query\<rparr>), Finished)
            else getSearchSuggestions query now st)
         else (st, Finished))"

text \<open>
  Everything that runs one of the flows above: a call of a function, a request that
  settles, a \<^verbatim>\<open>displayMovies\<close> that returns or throws, a timer callback. A run of
  the page is a list of such events. The controller and the key of a settling request
  can be any, so the runs include every order in which the page's own requests can
  settle.
\<close>

datatype event =
    SuggestionsCalled string int
  | SuggestionsSettled nat string outcome int
  | SearchCalled string int
  | SearchSettled nat string outcome int
  | SearchDisplayed movie_id
  | SearchDisplayFailed
  | RecommendationsSettled nat outcome
  | PersonalizedStarted
  | PersonalizedSettled outcome
  | InputFocused string int

fun happen :: "event \<Rightarrow> app \<Rightarrow> app" where
  "happen (SuggestionsCalled query now) st = fst (getSearchSuggestions query now st)"
| "happen (SuggestionsSettled c key out now) st = suggestions_settled c key out now st"
| "happen (SearchCalled query now) st = fst (searchMovies query now st)"
| "happen (SearchSettled c key out now) st = fst (search_settled c key out now st)"
| "happen (SearchDisplayed firstId) st = fst (search_displayed firstId st)"
| "happen SearchDisplayFailed st = search_display_failed st"
| "happen (RecommendationsSettled c out) st = recommendations_settled c out st"
| "happen PersonalizedStarted st = personalized_started st"
| "happen (PersonalizedSettled out) st = personalized_settled out st"
| "happen (InputFocused v now) st = fst (focus_listener v now st)"

definition run :: "event list \<Rightarrow> app \<Rightarrow> app" where
  "run evs st = fold happen evs st"

subsection \<open>The debounced input handler\<close>

text \<open>
  \<^verbatim>\<open>searchTimeout\<close> is the pending timer of the input handler: the time it is due
  and the query its callback will pass to \<^verbatim>\<open>getSearchSuggestions\<close>. What the
  handler and the timer do to the rest of the page is a list of effects.
\<close>

type_synonym timer = "int \<times> string"

datatype effect = HideSuggestions | GetSearchSuggestions string

text \<open>
  The \<^verbatim>\<open>input\<close> listener at time \<open>now\<close>, the input holding \<open>v\<close>:
  \<^verbatim>\<open>clearTimeout\<close>, then either hide the suggestions or set a timer of 150 ms.
\<close>

definition on_input :: "string \<Rightarrow> int \<Rightarrow> timer option \<Rightarrow> timer option \<times> effect list" where
  "on_input v now searchTimeout =
     (let query = trim v;
          cleared = (None :: timer option)
      in if query = [] then (cleared, [HideSuggestions])
         else (Some (now + 150, query), []))"

text \<open>The timer runs its callback once the clock has reached the time it is due.\<close>

definition run_timer :: "int \<Rightarrow> timer option \<Rightarrow> timer option \<times> (int \<times> effect) list" where
  "run_timer now searchTimeout =
     (case searchTimeout of
        None \<Rightarrow> (None, [])
      | Some (due, query) \<Rightarrow>
          if due \<le> now then (None, [(due, GetSearchSuggestions query)])
          else (searchTimeout, []))"

text \<open>
  Keystrokes, each with its time and the text the input holds after it, in order; a
  timer that is due runs before the keystroke is handled. The result is the timer left
  pending and the effects with their times.
\<close>

fun keystrokes ::
  "(int \<times> string) list \<Rightarrow> timer option \<Rightarrow> timer option \<times> (int \<times> effect) list" where
  "keystrokes [] searchTimeout = (searchTimeout, [])"
| "keystrokes ((t, v) # ks) searchTimeout =
     (let (tm1, fired) = run_timer t searchTimeout;
          (tm2, effs) = on_input v t tm1;
          (tm3, later) = keystrokes ks tm2
      in (tm3, fired @ map (Pair t) effs @ later))"

text \<open>The keystrokes from an idle handler, and then the clock running on to \<open>until\<close>.\<close>

definition typing :: "(int \<times> string) list \<Rightarrow> int \<Rightarrow> (int \<times> effect) list" where
  "typing ks until =
     (let (tm, effs) = keystrokes ks None;
          (tm', fired) = run_timer until tm
      in effs @ fired)"

text \<open>The suggestion queries among the effects, each with the time it was started.\<close>

fun queries :: "(int \<times> effect) list \<Rightarrow> (int \<times> string) list" where
  "queries [] = []"
| "queries ((t, GetSearchSuggestions q) # es) = (t, q) # queries es"
| "queries ((t, HideSuggestions) # es) = queries es"

text \<open>Each keystroke comes less than 150 ms after the one before it.\<close>

fun in_quick_succession :: "(int \<times> string) list \<Rightarrow> bool" where
  "in_quick_succession [] = True"
| "in_quick_succession [k] = True"
| "in_quick_succession ((t1, v1) # (t2, v2) # ks) =
     (t1 \<le> t2 \<and> t2 - t1 < 150 \<and> in_quick_succession ((t2, v2) # ks))"

section \<open>Properties\<close>

subsection \<open>History and ratings\<close>

lemma addToHistory_absent:
  "movieId \<notin> set (history p) \<Longrightarrow>
     addToHistory movieId p = p\<lparr>history := take 100 (movieId # history p)\<rparr>"
  by (simp add: addToHistory_def Let_def)

lemma addToHistory_present: "movieId \<in> set (history p) \<Longrightarrow> addToHistory movieId p = p"
  by (simp add: addToHistory_def)

lemma addToHistory_length:
  "length (history p) \<le> 100 \<Longrightarrow> length (history (addToHistory movieId p)) \<le> 100"
  by (simp add: addToHistory_def Let_def)

lemma addToHistory_distinct:
  "distinct (history p) \<Longrightarrow> distinct (history (addToHistory movieId p))"
  by (auto simp add: addToHistory_def Let_def dest: in_set_takeD)

lemma addToHistory_ratings:
  "liked_movies (addToHistory movieId p) = liked_movies p"
  "disliked_movies (addToHistory movieId p) = disliked_movies p"
  by (simp_all add: addToHistory_def Let_def)

lemma rateMovie_history: "history (rateMovie movieId liked p) = history p"
  by (simp add: rateMovie_def Let_def)

lemma toggleWatchlist_fields:
  "history (toggleWatchlist movieId p) = history p"
  "liked_movies (toggleWatchlist movieId p) = liked_movies p"
  "disliked_movies (toggleWatchlist movieId p) = disliked_movies p"
  by (simp_all add: toggleWatchlist_def)

lemma mutate_history:
  "length (history p) \<le> 100 \<and> distinct (history p) \<Longrightarrow>
     length (history (mutate m p)) \<le> 100 \<and> distinct (history (mutate m p))"
  by (cases m)
     (simp_all add: addToHistory_length addToHistory_distinct rateMovie_history
        toggleWatchlist_fields)

lemma mutations_history:
  "length (history p) \<le> 100 \<and> distinct (history p) \<Longrightarrow>
     length (history (mutations ms p)) \<le> 100 \<and> distinct (history (mutations ms p))"
  unfolding mutations_def
proof (induction ms arbitrary: p)
  case Nil
  then show ?case by simp
next
  case (Cons m ms)
  from Cons.prems have "length (history (mutate m p)) \<le> 100 \<and> distinct (history (mutate m p))"
    by (rule mutate_history)
  then show ?case using Cons.IH by simp
qed

lemma rateMovie_disjoint:
  "set (liked_movies p) \<inter> set (disliked_movies p) = {} \<Longrightarrow>
     set (liked_movies (rateMovie movieId liked p))
       \<inter> set (disliked_movies (rateMovie movieId liked p)) = {}"
  by (auto simp add: rateMovie_def Let_def)

lemma mutate_disjoint:
  "set (liked_movies p) \<inter> set (disliked_movies p) = {} \<Longrightarrow>
     set (liked_movies (mutate m p)) \<inter> set (disliked_movies (mutate m p)) = {}"
  by (cases m) (simp_all add: rateMovie_disjoint addToHistory_ratings toggleWatchlist_fields)

lemma mutations_disjoint:
  "set (liked_movies p) \<inter> set (disliked_movies p) = {} \<Longrightarrow>
     set (liked_movies (mutations ms p)) \<inter> set (disliked_movies (mutations ms p)) = {}"
  unfolding mutations_def
proof (induction ms arbitrary: p)
  case Nil
  then show ?case by simp
next
  case (Cons m ms)
  from Cons.prems
  have "set (liked_movies (mutate m p)) \<inter> set (disliked_movies (mutate m p)) = {}"
    by (rule mutate_disjoint)
  then show ?case using Cons.IH by simp
qed

lemma rateMovie_liked:
  "movieId \<in> set (liked_movies (rateMovie movieId True p))"
  "movieId \<notin> set (disliked_movies (rateMovie movieId True p))"
  by (simp_all add: rateMovie_def Let_def)

lemma rateMovie_disliked:
  "movieId \<in> set (disliked_movies (rateMovie movieId False p))"
  "movieId \<notin> set (liked_movies (rateMovie movieId False p))"
  by (simp_all add: rateMovie_def Let_def)

text \<open>
  Claim C3, as the code has it. An id that is not in the history is put in front and the
  list is cut to 100 entries. An id that is already in the history leaves the profile as
  it was: no duplicate, no reordering, and the id is not moved to the front. A history of
  at most 100 entries has at most 100 entries after the call, and every history that the
  mutations of the page build from the initial profile has at most 100 entries, all
  different.
\<close>

theorem addToHistory_front_or_unchanged:
  "(movieId \<notin> set (history p) \<longrightarrow>
      addToHistory movieId p = p\<lparr>history := take 100 (movieId # history p)\<rparr>) \<and>
   (movieId \<in> set (history p) \<longrightarrow> addToHistory movieId p = p) \<and>
   (length (history p) \<le> 100 \<longrightarrow> length (history (addToHistory movieId p)) \<le> 100) \<and>
   length (history (mutations ms initial_profile)) \<le> 100 \<and>
   distinct (history (mutations ms initial_profile))"
proof -
  have "length (history initial_profile) \<le> 100 \<and> distinct (history initial_profile)"
    by (simp add: initial_profile_def)
  then have "length (history (mutations ms initial_profile)) \<le> 100
      \<and> distinct (history (mutations ms initial_profile))"
    by (rule mutations_history)
  then show ?thesis
    by (simp add: addToHistory_absent addToHistory_present addToHistory_length)
qed

theorem addToHistory_front_or_unchanged_witness:
  "history (addToHistory 7 (initial_profile\<lparr>history := [1, 2]\<rparr>)) = [7, 1, 2] \<and>
   history (addToHistory 2 (initial_profile\<lparr>history := [1, 2]\<rparr>)) = [1, 2] \<and>
   length (history (addToHistory 7 (initial_profile\<lparr>history := [1, 2]\<rparr>))) \<le> 100 \<and>
   history (mutations [AddToHistory 1, AddToHistory 2, AddToHistory 1] initial_profile) = [2, 1]"
  using addToHistory_front_or_unchanged
          [of 7 "initial_profile\<lparr>history := [1, 2]\<rparr>" "[]"]
        addToHistory_front_or_unchanged
          [of 2 "initial_profile\<lparr>history := [1, 2]\<rparr>" "[]"]
  by (simp add: initial_profile_def mutations_def addToHistory_def)

text \<open>
  The history \<open>[1, 2]\<close> and the id 2, which is in it: after the call the list is as it
  was, and 2 is not at its front.
\<close>

theorem addToHistory_no_move_counterexample:
  "history (addToHistory 2 (initial_profile\<lparr>history := [1, 2]\<rparr>)) = [1, 2] \<and>
   hd (history (addToHistory 2 (initial_profile\<lparr>history := [1, 2]\<rparr>))) \<noteq> 2"
  by (simp add: addToHistory_def initial_profile_def)

text \<open>
  Claim C4. Rating a movie liked puts its id among the liked ones and takes it out of the
  disliked ones, and the other way round, from every profile; a rating keeps the two
  lists disjoint, so does every sequence of mutations, and the two lists of every profile
  reached from the initial one are disjoint.
\<close>

theorem rateMovie_keeps_ratings_disjoint:
  "movieId \<in> set (liked_movies (rateMovie movieId True p)) \<and>
   movieId \<notin> set (disliked_movies (rateMovie movieId True p)) \<and>
   movieId \<in> set (disliked_movies (rateMovie movieId False p)) \<and>
   movieId \<notin> set (liked_movies (rateMovie movieId False p)) \<and>
   (set (liked_movies p) \<inter> set (disliked_movies p) = {} \<longrightarrow>
      set (liked_movies (rateMovie movieId liked p))
        \<inter> set (disliked_movies (rateMovie movieId liked p)) = {}) \<and>
   (set (liked_movies p) \<inter> set (disliked_movies p) = {} \<longrightarrow>
      set (liked_movies (mutations ms p)) \<inter> set (disliked_movies (mutations ms p)) = {}) \<and>
   set (liked_movies (mutations ms initial_profile))
     \<inter> set (disliked_movies (mutations ms initial_profile)) = {}"
proof -
  have "set (liked_movies initial_profile) \<inter> set (disliked_movies initial_profile) = {}"
    by (simp add: initial_profile_def)
  then have "set (liked_movies (mutations ms initial_profile))
     \<inter> set (disliked_movies (mutations ms initial_profile)) = {}"
    by (rule mutations_disjoint)
  then show ?thesis
    by (simp add: rateMovie_liked rateMovie_disliked rateMovie_disjoint mutations_disjoint)
qed

theorem rateMovie_keeps_ratings_disjoint_witness:
  "set (liked_movies (initial_profile\<lparr>liked_movies := [5], disliked_movies := [9]\<rparr>))
     \<inter> set (disliked_movies (initial_profile\<lparr>liked_movies := [5], disliked_movies := [9]\<rparr>))
     = {} \<and>
   liked_movies (rateMovie 9 True
     (initial_profile\<lparr>liked_movies := [5], disliked_movies := [9]\<rparr>)) = [5, 9] \<and>
   disliked_movies (rateMovie 9 True
     (initial_profile\<lparr>liked_movies := [5], disliked_movies := [9]\<rparr>)) = [] \<and>
   set (liked_movies (mutations [Rate 5 False, Rate 9 True]
          (initial_profile\<lparr>liked_movies := [5], disliked_movies := [9]\<rparr>)))
     \<inter> set (disliked_movies (mutations [Rate 5 False, Rate 9 True]
          (initial_profile\<lparr>liked_movies := [5], disliked_movies := [9]\<rparr>))) = {}"
  using rateMovie_keeps_ratings_disjoint
          [of 9 "initial_profile\<lparr>liked_movies := [5], disliked_movies := [9]\<rparr>" True
              "[Rate 5 False, Rate 9 True]"]
  by (simp add: initial_profile_def rateMovie_def)

subsection \<open>Posters\<close>

lemma poster_loop_find:
  "poster_loop cfg cs =
     (case find stops_loop cs of
        None \<Rightarrow> Inr (FALLBACK_POSTER_URL cfg)
      | Some c \<Rightarrow> poster_at cfg c)"
proof (induction cs)
  case Nil
  show ?case by simp
next
  case (Cons c cs)
  show ?case
  proof (cases c)
    case Falsy
    with Cons show ?thesis by (simp add: stops_loop_def usable_def)
  next
    case (Str s)
    with Cons show ?thesis
      by (auto simp: stops_loop_def usable_def poster_at_def Let_def)
  next
    case (Truthy s)
    with Cons show ?thesis
      by (auto simp: stops_loop_def usable_def poster_at_def Let_def)
  next
    case NoString
    then show ?thesis by (simp add: stops_loop_def poster_at_def)
  qed
qed

lemma poster_of_raw_nonempty: "raw \<noteq> [] \<Longrightarrow> poster_of_raw cfg raw \<noteq> []"
  by (simp add: poster_of_raw_def)

lemma getEnvVar_nonempty: "d \<noteq> [] \<Longrightarrow> getEnvVar env key d \<noteq> []"
  by (simp add: getEnvVar_def split: option.splits)

lemma fallback_nonempty: "FALLBACK_POSTER_URL (loadConfig env) \<noteq> []"
  by (simp add: loadConfig_def getEnvVar_nonempty)

lemma poster_at_usable:
  "usable c \<Longrightarrow> \<exists>url. poster_at cfg c = Inr url \<and> url \<noteq> []"
  by (auto simp: usable_def poster_at_def poster_of_raw_nonempty split: sum.splits)

lemma find_stops: "find stops_loop cs = Some c \<Longrightarrow> c = NoString \<or> usable c"
  by (auto simp: find_Some_iff stops_loop_def)

lemma poster_loop_nonempty:
  "poster_loop (loadConfig env) cs = Inr url \<Longrightarrow> url \<noteq> []"
proof -
  assume r: "poster_loop (loadConfig env) cs = Inr url"
  show ?thesis
  proof (cases "find stops_loop cs")
    case None
    with r show ?thesis by (auto simp: poster_loop_find fallback_nonempty)
  next
    case (Some c)
    with r have at: "poster_at (loadConfig env) c = Inr url" by (simp add: poster_loop_find)
    from Some have "c = NoString \<or> usable c" by (rule find_stops)
    with at show ?thesis using poster_at_usable [of c "loadConfig env"]
      by (auto simp: poster_at_def)
  qed
qed

lemma poster_loop_total:
  "NoString \<notin> set cs \<Longrightarrow> \<exists>url. poster_loop cfg cs = Inr url"
proof (cases "find stops_loop cs")
  case None
  then show ?thesis by (simp add: poster_loop_find)
next
  case (Some c)
  assume "NoString \<notin> set cs"
  moreover from Some have "c \<in> set cs" by (auto simp: find_Some_iff)
  ultimately have "c \<noteq> NoString" by auto
  with Some show ?thesis
    by (cases c) (simp_all add: poster_loop_find poster_at_def)
qed


text \<open>
  Claim C10, as the code has it. For an argument that is not an object
  \<^verbatim>\<open>getMoviePoster\<close> returns the fallback poster URL. For a movie object the loop
  stops at the first candidate field that is usable or has no string conversion: with no
  such field it returns the fallback poster URL; at a usable field it returns the URL
  built from it; at a field without string conversion \<^verbatim>\<open>String\<close> throws a
  \<^verbatim>\<open>TypeError\<close>. So the function returns for every movie none of whose candidate
  fields lacks a string conversion, it throws only at such a field, and with the
  configuration the script loads, whatever the environment, every string it returns is
  not empty.
\<close>

theorem getMoviePoster_first_usable_or_fallback:
  "getMoviePoster cfg NonObject = Inr (FALLBACK_POSTER_URL cfg) \<and>
   getMoviePoster cfg (Object m) =
     (case find stops_loop (candidates m) of
        None \<Rightarrow> Inr (FALLBACK_POSTER_URL cfg)
      | Some c \<Rightarrow> poster_at cfg c) \<and>
   poster_at cfg NoString = Inl TypeError \<and>
   (usable c \<longrightarrow> (\<exists>s. String c = Inr s \<and> poster_at cfg c = Inr (poster_of_raw cfg (trim s)))) \<and>
   (NoString \<notin> set (candidates m) \<longrightarrow> (\<exists>url. getMoviePoster cfg (Object m) = Inr url)) \<and>
   (getMoviePoster cfg arg = Inl e \<longrightarrow>
      (\<exists>m'. arg = Object m' \<and> find stops_loop (candidates m') = Some NoString)) \<and>
   (getMoviePoster (loadConfig env) arg = Inr url \<longrightarrow> url \<noteq> [])"
proof (intro conjI impI)
  show "getMoviePoster cfg NonObject = Inr (FALLBACK_POSTER_URL cfg)"
    by (simp add: getMoviePoster_def)
  show "getMoviePoster cfg (Object m) =
     (case find stops_loop (candidates m) of
        None \<Rightarrow> Inr (FALLBACK_POSTER_URL cfg)
      | Some c \<Rightarrow> poster_at cfg c)"
    by (simp add: getMoviePoster_def poster_loop_find)
  show "poster_at cfg NoString = Inl TypeError"
    by (simp add: poster_at_def)
  show "\<exists>s. String c = Inr s \<and> poster_at cfg c = Inr (poster_of_raw cfg (trim s))"
    if "usable c"
    using that by (auto simp: usable_def poster_at_def split: sum.splits)
  show "\<exists>url. getMoviePoster cfg (Object m) = Inr url" if "NoString \<notin> set (candidates m)"
    using that by (simp add: getMoviePoster_def poster_loop_total)
  show "\<exists>m'. arg = Object m' \<and> find stops_loop (candidates m') = Some NoString"
    if thrown: "getMoviePoster cfg arg = Inl e"
  proof (cases arg)
    case NonObject
    with thrown show ?thesis by (simp add: getMoviePoster_def)
  next
    case (Object m')
    with thrown have at: "(case find stops_loop (candidates m') of
        None \<Rightarrow> Inr (FALLBACK_POSTER_URL cfg) | Some c \<Rightarrow> poster_at cfg c) = Inl e"
      by (simp add: getMoviePoster_def poster_loop_find)
    then obtain c' where c': "find stops_loop (candidates m') = Some c'" "poster_at cfg c' = Inl e"
      by (auto split: option.splits)
    from c'(2) have "c' = NoString" by (cases c') (simp_all add: poster_at_def)
    with c'(1) Object show ?thesis by simp
  qed
  show "url \<noteq> []" if "getMoviePoster (loadConfig env) arg = Inr url"
    using that
    by (cases arg) (auto simp: getMoviePoster_def fallback_nonempty dest: poster_loop_nonempty)
qed

theorem getMoviePoster_first_usable_or_fallback_witness:
  "usable (Str ''/heat.jpg'') \<and>
   NoString \<notin> set (candidates ((plain_movie ''Heat'' 949)
      \<lparr>poster_path := Str '' NaN '', poster := Truthy ''null'', image_url := Str ''/heat.jpg''\<rparr>)) \<and>
   getMoviePoster (loadConfig Map.empty)
     (Object ((plain_movie ''Heat'' 949)
        \<lparr>poster_path := Str '' NaN '', poster := Truthy ''null'', image_url := Str ''/heat.jpg''\<rparr>))
     = Inr ''https://image.tmdb.org/t/p/w500/heat.jpg'' \<and>
   ''https://image.tmdb.org/t/p/w500/heat.jpg'' \<noteq> [] \<and>
   find stops_loop (candidates ((plain_movie ''Heat'' 949)\<lparr>poster := NoString\<rparr>)) = Some NoString \<and>
   getMoviePoster (loadConfig Map.empty) (Object ((plain_movie ''Heat'' 949)\<lparr>poster := NoString\<rparr>))
     = Inl TypeError"
proof -
  let ?m = "(plain_movie ''Heat'' 949)
      \<lparr>poster_path := Str '' NaN '', poster := Truthy ''null'', image_url := Str ''/heat.jpg''\<rparr>"
  let ?bad = "(plain_movie ''Heat'' 949)\<lparr>poster := NoString\<rparr>"
  have u: "usable (Str ''/heat.jpg'')" by code_simp
  have clean: "NoString \<notin> set (candidates ?m)"
    by (simp add: candidates_def plain_movie_def)
  have run: "getMoviePoster (loadConfig Map.empty) (Object ?m)
     = Inr ''https://image.tmdb.org/t/p/w500/heat.jpg''" by code_simp
  have thrown: "getMoviePoster (loadConfig Map.empty) (Object ?bad) = Inl TypeError"
    by code_simp
  note good = getMoviePoster_first_usable_or_fallback
    [where cfg = "loadConfig Map.empty" and m = ?m and c = "Str ''/heat.jpg''"
       and arg = "Object ?m" and env = Map.empty
       and url = "''https://image.tmdb.org/t/p/w500/heat.jpg''" and e = TypeError]
  note bad = getMoviePoster_first_usable_or_fallback
    [where cfg = "loadConfig Map.empty" and m = ?m and c = "Str ''/heat.jpg''"
       and arg = "Object ?bad" and env = Map.empty
       and url = "''https://image.tmdb.org/t/p/w500/heat.jpg''" and e = TypeError]
  from good run have ne: "''https://image.tmdb.org/t/p/w500/heat.jpg'' \<noteq> []" by blast
  from bad thrown have "\<exists>m'. Object ?bad = Object m'
      \<and> find stops_loop (candidates m') = Some NoString" by blast
  then have stop: "find stops_loop (candidates ?bad) = Some NoString" by simp
  from u clean run ne stop thrown show ?thesis by blast
qed

text \<open>
  A movie whose \<^verbatim>\<open>poster_path\<close> is an object without string conversion: the call
  throws. A movie whose \<^verbatim>\<open>poster_path\<close> holds the address of the fallback poster:
  the field is usable, and the fallback poster URL is returned all the same.
\<close>

theorem getMoviePoster_counterexample:
  "getMoviePoster (loadConfig Map.empty)
     (Object ((plain_movie ''Heat'' 949)\<lparr>poster_path := NoString\<rparr>)) = Inl TypeError \<and>
   usable (Str ''https://dummyimage.com/500x750/1f2937/9ca3af&text=No+Poster'') \<and>
   getMoviePoster (loadConfig Map.empty)
     (Object ((plain_movie ''Heat'' 949)
         \<lparr>poster_path := Str ''https://dummyimage.com/500x750/1f2937/9ca3af&text=No+Poster''\<rparr>))
     = Inr (FALLBACK_POSTER_URL (loadConfig Map.empty))"
  by code_simp

subsection \<open>One controller per channel\<close>

lemma begin_request_fields:
  "fst (begin_request ch st) = controllers st"
  "controllers (snd (begin_request ch st)) = Suc (controllers st)"
  "controller_of ch (snd (begin_request ch st)) = Some (controllers st)"
  "set (aborted (snd (begin_request ch st))) = set (aborted st) \<union> set_option (controller_of ch st)"
  by (cases ch; simp add: begin_request_def new_controller_def abort_def controller_of_def
        Let_def split: option.splits)+

lemma begin_request_other_channels:
  "ch' \<noteq> ch \<Longrightarrow> controller_of ch' (snd (begin_request ch st)) = controller_of ch' st"
  by (cases ch; cases ch';
      simp add: begin_request_def new_controller_def abort_def controller_of_def Let_def
        split: option.splits)

lemma controllers_created_bounds:
  assumes "controllers_created st"
  shows "\<forall>k\<in>set (aborted st). k < controllers st"
    and "\<forall>k\<in>set_option (controller_of ch st). k < controllers st"
  using assms
  by (cases ch; auto simp: controllers_created_def list_all_iff controller_of_def
        split: option.splits)+

lemma controllers_frame:
  assumes "controller_state st' = controller_state st"
  shows "controllers_created st' = controllers_created st"
    and "others_aborted st' = others_aborted st"
  using assms
  by (simp_all add: controller_state_def controllers_created_def others_aborted_def
        split: option.splits)

lemma abort_held_invariant:
  assumes "controllers_created st \<and> others_aborted st"
    and "c = None \<or> c = suggestionsController st \<or> c = searchController st
         \<or> c = recsController st"
  shows "controllers_created (abort c st) \<and> others_aborted (abort c st)"
  using assms
  by (cases c)
     (auto simp: abort_def controllers_created_def others_aborted_def list_all_iff
        split: option.splits)

lemma new_controller_invariant:
  assumes "controllers_created st \<and> others_aborted st"
    and "\<forall>k. controller_of ch st = Some k \<longrightarrow> k \<in> set (aborted st)"
  shows "controllers_created (snd (new_controller ch st))
         \<and> others_aborted (snd (new_controller ch st))"
  using assms
  by (cases ch)
     (auto simp: new_controller_def controllers_created_def others_aborted_def list_all_iff
        controller_of_def Let_def less_Suc_eq split: option.splits)

lemma begin_request_invariant:
  assumes "controllers_created st \<and> others_aborted st"
  shows "controllers_created (snd (begin_request ch st))
         \<and> others_aborted (snd (begin_request ch st))"
  unfolding begin_request_def
proof (rule new_controller_invariant)
  show "controllers_created (abort (controller_of ch st) st)
      \<and> others_aborted (abort (controller_of ch st) st)"
    using assms by (rule abort_held_invariant) (cases ch; simp add: controller_of_def)
  show "\<forall>k. controller_of ch (abort (controller_of ch st) st) = Some k \<longrightarrow>
      k \<in> set (aborted (abort (controller_of ch st) st))"
    by (cases ch; simp add: controller_of_def abort_def split: option.splits)
qed


lemma displaySuggestions_controllers:
  "controller_state (displaySuggestions ms st) = controller_state st"
  by (simp add: displaySuggestions_def controller_state_def)

lemma hideSuggestions_controllers: "controller_state (hideSuggestions st) = controller_state st"
  by (simp add: hideSuggestions_def controller_state_def)

lemma show_search_results_controllers:
  "controller_state (fst (show_search_results rs st)) = controller_state st"
  by (simp add: show_search_results_def controller_state_def Let_def
        split: response.splits list.splits)

lemma settled_controllers:
  "controller_state (suggestions_settled c key out now st) = controller_state st"
  "controller_state (fst (search_settled c key out now st)) = controller_state st"
  "controller_state (recommendations_settled c out st) = controller_state st"
  "controller_state (personalized_settled out st) = controller_state st"
proof -
  show "controller_state (suggestions_settled c key out now st) = controller_state st"
    by (simp add: suggestions_settled_def displaySuggestions_def controller_state_def Let_def
          split: outcome.splits response.splits)
  show "controller_state (fst (search_settled c key out now st)) = controller_state st"
    by (simp add: search_settled_def show_search_results_controllers split: outcome.splits)
       (simp add: controller_state_def)
  show "controller_state (recommendations_settled c out st) = controller_state st"
    by (simp add: recommendations_settled_def controller_state_def
          split: outcome.splits response.splits list.splits)
  show "controller_state (personalized_settled out st) = controller_state st"
    by (simp add: personalized_settled_def controller_state_def Let_def)
qed

lemma getSearchSuggestions_controllers:
  "controller_state (fst (getSearchSuggestions query now st)) = controller_state st
   \<or> controller_state (fst (getSearchSuggestions query now st))
       = controller_state (snd (begin_request Suggestions st))"
  by (simp add: getSearchSuggestions_def Let_def split_beta displaySuggestions_controllers
        hideSuggestions_controllers split: option.splits)
     (simp add: controller_state_def)

lemma focus_listener_controllers:
  "controller_state (fst (focus_listener v now st)) = controller_state st
   \<or> controller_state (fst (focus_listener v now st))
       = controller_state (snd (begin_request Suggestions st))"
proof -
  have "controller_state (st\<lparr>currentSuggestions := ms\<rparr>) = controller_state st" for ms
    by (simp add: controller_state_def)
  then show ?thesis
    using getSearchSuggestions_controllers [of "trim v" now st]
    by (simp add: focus_listener_def Let_def displaySuggestions_controllers)
qed

lemma search_displayed_controllers:
  "controller_state (fst (search_displayed firstId st))
     = controller_state (snd (begin_request Recommendations st))"
  by (simp add: search_displayed_def split_beta controller_state_def)

lemma search_display_failed_controllers:
  "controller_state (search_display_failed st) = controller_state st"
  by (simp add: search_display_failed_def controller_state_def)

lemma personalized_started_controllers:
  "controller_state (personalized_started st)
     = controller_state (snd (begin_request Recommendations st))"
  by (simp add: personalized_started_def split_beta controller_state_def)

text \<open>The statements of \<^verbatim>\<open>searchMovies\<close> that touch the controllers.\<close>

lemma searchMovies_controller_state:
  "trim query \<noteq> [] \<Longrightarrow>
     controller_state (fst (searchMovies query now st))
       = controller_state (snd (new_controller Search
           (abort (recsController st) (abort (searchController st) st))))"
  by (simp add: searchMovies_def Let_def split_beta show_search_results_controllers
        split: option.splits)
     (auto simp: controller_state_def new_controller_def abort_def hideSuggestions_def Let_def
        split: option.splits)


lemma invariant_transfer:
  assumes "controller_state st' = controller_state st"
    and "controllers_created st \<and> others_aborted st"
  shows "controllers_created st' \<and> others_aborted st'"
  using assms(2) controllers_frame [OF assms(1)] by blast

lemma searchMovies_invariant:
  assumes "controllers_created st \<and> others_aborted st"
  shows "controllers_created (fst (searchMovies query now st))
         \<and> others_aborted (fst (searchMovies query now st))"
proof (cases "trim query = []")
  case True
  with assms show ?thesis by (simp add: searchMovies_def)
next
  case False
  let ?s2 = "abort (searchController st) st"
  let ?s3 = "abort (recsController st) ?s2"
  from assms have "controllers_created ?s2 \<and> others_aborted ?s2"
    by (rule abort_held_invariant) simp
  then have "controllers_created ?s3 \<and> others_aborted ?s3"
    by (rule abort_held_invariant) (simp add: abort_def split: option.splits)
  moreover have "\<forall>k. controller_of Search ?s3 = Some k \<longrightarrow> k \<in> set (aborted ?s3)"
    by (simp add: controller_of_def abort_def split: option.splits)
  ultimately have "controllers_created (snd (new_controller Search ?s3))
      \<and> others_aborted (snd (new_controller Search ?s3))"
    by (rule new_controller_invariant)
  with searchMovies_controller_state [OF False, of now st] show ?thesis
    by (rule invariant_transfer)
qed

lemma happen_invariant:
  assumes inv: "controllers_created st \<and> others_aborted st"
  shows "controllers_created (happen ev st) \<and> others_aborted (happen ev st)"
proof -
  note begun = begin_request_invariant [OF inv]
  have either: "controllers_created st' \<and> others_aborted st'"
    if "controller_state st' = controller_state st
        \<or> controller_state st' = controller_state (snd (begin_request ch st))" for st' ch
  proof -
    from that show ?thesis
    proof
      assume "controller_state st' = controller_state st"
      then show ?thesis using inv by (rule invariant_transfer)
    next
      assume "controller_state st' = controller_state (snd (begin_request ch st))"
      then show ?thesis using begun [of ch] by (rule invariant_transfer)
    qed
  qed
  show ?thesis
  proof (cases ev)
    case (SuggestionsCalled query now)
    then show ?thesis
      using either [OF getSearchSuggestions_controllers [of query now st]] by simp
  next
    case (SuggestionsSettled c key out now)
    then show ?thesis
      using invariant_transfer [OF settled_controllers(1) inv] by simp
  next
    case (SearchCalled query now)
    then show ?thesis using searchMovies_invariant [OF inv] by simp
  next
    case (SearchSettled c key out now)
    then show ?thesis
      using invariant_transfer [OF settled_controllers(2) inv] by simp
  next
    case (SearchDisplayed firstId)
    then show ?thesis
      using invariant_transfer [OF search_displayed_controllers begun] by simp
  next
    case SearchDisplayFailed
    then show ?thesis
      using invariant_transfer [OF search_display_failed_controllers inv] by simp
  next
    case (RecommendationsSettled c out)
    then show ?thesis
      using invariant_transfer [OF settled_controllers(3) inv] by simp
  next
    case PersonalizedStarted
    then show ?thesis
      using invariant_transfer [OF personalized_started_controllers begun] by simp
  next
    case (PersonalizedSettled out)
    then show ?thesis
      using invariant_transfer [OF settled_controllers(4) inv] by simp
  next
    case (InputFocused v now)
    then show ?thesis
      using either [OF focus_listener_controllers [of v now st]] by simp
  qed
qed

lemma run_invariant:
  "controllers_created st \<and> others_aborted st \<Longrightarrow>
     controllers_created (run evs st) \<and> others_aborted (run evs st)"
  unfolding run_def
proof (induction evs arbitrary: st)
  case Nil
  then show ?case by simp
next
  case (Cons ev evs)
  from Cons.prems have "controllers_created (happen ev st) \<and> others_aborted (happen ev st)"
    by (rule happen_invariant)
  then show ?case using Cons.IH by simp
qed

lemma initial_app_invariant: "controllers_created initial_app \<and> others_aborted initial_app"
  by (simp add: controllers_created_def others_aborted_def initial_app_def)


lemma getSearchSuggestions_fetch:
  assumes "trim query \<noteq> []" and "2 \<le> length query"
    and "length query \<le> 3 \<longrightarrow> getImmediateSuggestions query = []"
    and "cache_lookup (suggestionCache st) (suggestionCacheKey query (userProfile st)) now = None"
  shows "getSearchSuggestions query now st
       = ((abort (suggestionsController st) st)
            \<lparr>controllers := Suc (controllers st),
             suggestionsController := Some (controllers st),
             requests := requests st
               @ [SuggestionsRequest (suggestion_params query (userProfile st)) (controllers st)]\<rparr>,
          SuggestionsFetch (controllers st) (suggestionCacheKey query (userProfile st)))"
  using assms
  by (auto simp add: getSearchSuggestions_def Let_def begin_request_def controller_of_def
        abort_def new_controller_def split: option.splits)

lemma begin_request_fresh:
  assumes "controllers_created st"
  shows "controllers st \<notin> set (aborted (snd (begin_request ch st)))"
  using controllers_created_bounds(1) [OF assms] controllers_created_bounds(2) [OF assms, of ch]
  by (auto simp: begin_request_fields)

lemma begin_request_old:
  "controller_of ch st = Some old \<Longrightarrow> old \<in> set (aborted (snd (begin_request ch st)))"
  by (simp add: begin_request_fields)

lemma searchMovies_controllers:
  assumes "trim query \<noteq> []"
  shows "searchController (fst (searchMovies query now st)) = Some (controllers st)"
    and "set (aborted (fst (searchMovies query now st)))
          = set (aborted st) \<union> set_option (searchController st) \<union> set_option (recsController st)"
  using searchMovies_controller_state [OF assms, of now st]
  by (auto simp: controller_state_def new_controller_def abort_def Let_def
        split: option.splits)


text \<open>
  Claim C5. A channel has one variable, so it holds one controller at a time. In a state
  where every controller created so far is aborted unless a channel holds it, each flow
  that starts a request (\<^verbatim>\<open>getSearchSuggestions\<close> when it fetches,
  \<^verbatim>\<open>searchMovies\<close>, the request for the recommendations of the first result, the
  callback of \<^verbatim>\<open>loadPersonalizedRecommendations\<close>) aborts the controller its
  channel holds and then puts a new one, not aborted, in its place; the two statements
  undo no abort and leave the other channels' controllers in place. Every event of the
  page keeps the state such, so after every run of the page from its initial state, of
  all the controllers ever created only those the three channels hold are not aborted:
  at most one per channel.
\<close>

theorem one_live_controller_per_channel:
  assumes inv: "controllers_created st \<and> others_aborted st"
  shows
  "controller_of ch (snd (begin_request ch st)) = Some (fst (begin_request ch st)) \<and>
   fst (begin_request ch st) \<notin> set (aborted (snd (begin_request ch st))) \<and>
   (\<forall>old. controller_of ch st = Some old \<longrightarrow>
      old \<in> set (aborted (snd (begin_request ch st))) \<and> old \<noteq> fst (begin_request ch st)) \<and>
   set (aborted st) \<subseteq> set (aborted (snd (begin_request ch st))) \<and>
   (\<forall>ch'. ch' \<noteq> ch \<longrightarrow>
      controller_of ch' (snd (begin_request ch st)) = controller_of ch' st) \<and>
   (trim query \<noteq> [] \<and> 2 \<le> length query \<and>
    (length query \<le> 3 \<longrightarrow> getImmediateSuggestions query = []) \<and>
    cache_lookup (suggestionCache st) (suggestionCacheKey query (userProfile st)) now = None \<longrightarrow>
      snd (getSearchSuggestions query now st)
        = SuggestionsFetch (controllers st) (suggestionCacheKey query (userProfile st)) \<and>
      suggestionsController (fst (getSearchSuggestions query now st)) = Some (controllers st) \<and>
      controllers st \<notin> set (aborted (fst (getSearchSuggestions query now st))) \<and>
      (\<forall>old. suggestionsController st = Some old \<longrightarrow>
         old \<in> set (aborted (fst (getSearchSuggestions query now st))))) \<and>
   (trim query \<noteq> [] \<longrightarrow>
      searchController (fst (searchMovies query now st)) = Some (controllers st) \<and>
      controllers st \<notin> set (aborted (fst (searchMovies query now st))) \<and>
      (\<forall>old. searchController st = Some old \<longrightarrow>
         old \<in> set (aborted (fst (searchMovies query now st))))) \<and>
   snd (search_displayed firstId st) = RecommendationsFetch (controllers st) \<and>
   recsController (fst (search_displayed firstId st)) = Some (controllers st) \<and>
   controllers st \<notin> set (aborted (fst (search_displayed firstId st))) \<and>
   (\<forall>old. recsController st = Some old \<longrightarrow>
      old \<in> set (aborted (fst (search_displayed firstId st)))) \<and>
   recsController (personalized_started st) = Some (controllers st) \<and>
   controllers st \<notin> set (aborted (personalized_started st)) \<and>
   (\<forall>old. recsController st = Some old \<longrightarrow> old \<in> set (aborted (personalized_started st))) \<and>
   controllers_created (happen ev st) \<and> others_aborted (happen ev st) \<and>
   controllers_created (run evs st) \<and> others_aborted (run evs st) \<and>
   controllers_created (run evs initial_app) \<and> others_aborted (run evs initial_app)"
proof -
  from inv have created: "controllers_created st" by simp
  note fresh = begin_request_fresh [OF created]
  have pattern:
    "controller_of ch (snd (begin_request ch st)) = Some (fst (begin_request ch st))"
    "fst (begin_request ch st) \<notin> set (aborted (snd (begin_request ch st)))"
    "\<forall>old. controller_of ch st = Some old \<longrightarrow>
      old \<in> set (aborted (snd (begin_request ch st))) \<and> old \<noteq> fst (begin_request ch st)"
    "set (aborted st) \<subseteq> set (aborted (snd (begin_request ch st)))"
    "\<forall>ch'. ch' \<noteq> ch \<longrightarrow>
      controller_of ch' (snd (begin_request ch st)) = controller_of ch' st"
    using fresh [of ch] controllers_created_bounds(2) [OF created, of ch]
    by (auto simp: begin_request_fields begin_request_other_channels)
  have suggestions:
    "trim query \<noteq> [] \<and> 2 \<le> length query \<and>
    (length query \<le> 3 \<longrightarrow> getImmediateSuggestions query = []) \<and>
    cache_lookup (suggestionCache st) (suggestionCacheKey query (userProfile st)) now = None \<longrightarrow>
      snd (getSearchSuggestions query now st)
        = SuggestionsFetch (controllers st) (suggestionCacheKey query (userProfile st)) \<and>
      suggestionsController (fst (getSearchSuggestions query now st)) = Some (controllers st) \<and>
      controllers st \<notin> set (aborted (fst (getSearchSuggestions query now st))) \<and>
      (\<forall>old. suggestionsController st = Some old \<longrightarrow>
         old \<in> set (aborted (fst (getSearchSuggestions query now st))))"
  proof (intro impI)
    assume h: "trim query \<noteq> [] \<and> 2 \<le> length query \<and>
      (length query \<le> 3 \<longrightarrow> getImmediateSuggestions query = []) \<and>
      cache_lookup (suggestionCache st) (suggestionCacheKey query (userProfile st)) now = None"
    then have run: "getSearchSuggestions query now st
       = ((abort (suggestionsController st) st)
            \<lparr>controllers := Suc (controllers st),
             suggestionsController := Some (controllers st),
             requests := requests st
               @ [SuggestionsRequest (suggestion_params query (userProfile st)) (controllers st)]\<rparr>,
          SuggestionsFetch (controllers st) (suggestionCacheKey query (userProfile st)))"
      by (intro getSearchSuggestions_fetch) simp_all
    show "snd (getSearchSuggestions query now st)
        = SuggestionsFetch (controllers st) (suggestionCacheKey query (userProfile st)) \<and>
      suggestionsController (fst (getSearchSuggestions query now st)) = Some (controllers st) \<and>
      controllers st \<notin> set (aborted (fst (getSearchSuggestions query now st))) \<and>
      (\<forall>old. suggestionsController st = Some old \<longrightarrow>
         old \<in> set (aborted (fst (getSearchSuggestions query now st))))"
      unfolding run
      using controllers_created_bounds(1) [OF created]
        controllers_created_bounds(2) [OF created, of Suggestions]
      by (auto simp: abort_def controller_of_def split: option.splits)
  qed
  have search: "trim query \<noteq> [] \<longrightarrow>
      searchController (fst (searchMovies query now st)) = Some (controllers st) \<and>
      controllers st \<notin> set (aborted (fst (searchMovies query now st))) \<and>
      (\<forall>old. searchController st = Some old \<longrightarrow>
         old \<in> set (aborted (fst (searchMovies query now st))))"
    using controllers_created_bounds(1) [OF created]
      controllers_created_bounds(2) [OF created, of Search]
      controllers_created_bounds(2) [OF created, of Recommendations]
    by (auto simp: searchMovies_controllers controller_of_def)
  have shown: "fst (search_displayed firstId st)
      = (snd (begin_request Recommendations st))
          \<lparr>requests := requests (snd (begin_request Recommendations st))
             @ [RecommendationsRequest firstId (controllers st)]\<rparr>"
    "snd (search_displayed firstId st) = RecommendationsFetch (controllers st)"
    by (simp_all add: search_displayed_def split_beta begin_request_fields)
  have displayed:
    "recsController (fst (search_displayed firstId st)) = Some (controllers st)"
    "controllers st \<notin> set (aborted (fst (search_displayed firstId st)))"
    "\<forall>old. recsController st = Some old \<longrightarrow>
      old \<in> set (aborted (fst (search_displayed firstId st)))"
    unfolding shown
    using fresh [of Recommendations] begin_request_fields(3,4) [of Recommendations st]
    by (auto simp: controller_of_def)
  have started: "personalized_started st
      = (snd (begin_request Recommendations st))
          \<lparr>user_recommendation_movies := Loading,
           requests := requests (snd (begin_request Recommendations st))
             @ [UserRecommendationsRequest]\<rparr>"
    by (simp add: personalized_started_def split_beta)
  have personalized:
    "recsController (personalized_started st) = Some (controllers st)"
    "controllers st \<notin> set (aborted (personalized_started st))"
    "\<forall>old. recsController st = Some old \<longrightarrow> old \<in> set (aborted (personalized_started st))"
    unfolding started
    using fresh [of Recommendations] begin_request_fields(3,4) [of Recommendations st]
    by (auto simp: controller_of_def)
  note step = happen_invariant [OF inv, of ev]
  note runs = run_invariant [OF inv, of evs] run_invariant [OF initial_app_invariant, of evs]
  from pattern suggestions search shown(2) displayed personalized step runs
  show ?thesis by blast
qed


theorem one_live_controller_per_channel_witness:
  "controllers_created initial_app \<and> others_aborted initial_app \<and>
   snd (getSearchSuggestions ''heat'' 0 initial_app)
     = SuggestionsFetch 0 (suggestionCacheKey ''heat'' initial_profile) \<and>
   searchController (fst (searchMovies ''heat'' 0 initial_app)) = Some 0 \<and>
   recsController (personalized_started initial_app) = Some 0 \<and>
   recsController (fst (search_displayed 7 (personalized_started initial_app))) = Some 1 \<and>
   0 \<in> set (aborted (fst (search_displayed 7 (personalized_started initial_app)))) \<and>
   1 \<notin> set (aborted (fst (search_displayed 7 (personalized_started initial_app))))"
proof -
  note inv0 = initial_app_invariant
  have fields0: "controllers initial_app = 0" "userProfile initial_app = initial_profile"
    "suggestionCache initial_app = Map.empty"
    by (simp_all add: initial_app_def)
  have q: "trim ''heat'' \<noteq> []" "2 \<le> length ''heat''"
    "length ''heat'' \<le> 3 \<longrightarrow> getImmediateSuggestions ''heat'' = []"
    by (simp_all add: trim_def is_space_def)
  have miss: "cache_lookup (suggestionCache initial_app)
      (suggestionCacheKey ''heat'' (userProfile initial_app)) 0 = None"
    by (simp add: cache_lookup_def fields0)
  note first = one_live_controller_per_channel
    [OF inv0, where query = "''heat''" and now = 0 and ch = Search and firstId = 7
       and ev = PersonalizedStarted and evs = "[]"]
  from first q miss have a:
    "snd (getSearchSuggestions ''heat'' 0 initial_app)
       = SuggestionsFetch 0 (suggestionCacheKey ''heat'' initial_profile)"
    "searchController (fst (searchMovies ''heat'' 0 initial_app)) = Some 0"
    "recsController (personalized_started initial_app) = Some 0"
    by (simp_all add: fields0)
  from first have inv1: "controllers_created (personalized_started initial_app)
      \<and> others_aborted (personalized_started initial_app)"
    by simp
  have fields1: "controllers (personalized_started initial_app) = 1"
    by (simp add: personalized_started_def begin_request_def new_controller_def abort_def
          controller_of_def initial_app_def Let_def)
  note second = one_live_controller_per_channel
    [OF inv1, where query = "''heat''" and now = 0 and ch = Search and firstId = 7
       and ev = PersonalizedStarted and evs = "[]"]
  from second a(3) have b:
    "recsController (fst (search_displayed 7 (personalized_started initial_app))) = Some 1"
    "0 \<in> set (aborted (fst (search_displayed 7 (personalized_started initial_app))))"
    "1 \<notin> set (aborted (fst (search_displayed 7 (personalized_started initial_app))))"
    by (simp_all add: fields1)
  from inv0 a b show ?thesis by simp
qed

subsection \<open>Cache entries and their time to live\<close>

lemma cache_lookup_store:
  "cache_lookup (cache_store c key v T) key now
     = (if now - T < CACHE_TTL_MS then Some v else None)"
  by (simp add: cache_lookup_def cache_store_def)

lemma searchMovies_miss:
  assumes "trim query \<noteq> []"
    and "cache_lookup (searchResultCache st) (searchCacheKey query (userProfile st)) now = None"
  shows "snd (searchMovies query now st)
          = SearchFetch (controllers st) (searchCacheKey query (userProfile st))"
    and "requests (fst (searchMovies query now st))
          = requests st @ [SearchRequest (searchCacheKey query (userProfile st)) (controllers st)]"
  using assms
  by (simp_all add: searchMovies_def Let_def hideSuggestions_def abort_def new_controller_def
        split: option.splits)

lemma searchMovies_hit:
  assumes "trim query \<noteq> []"
    and "cache_lookup (searchResultCache st) (searchCacheKey query (userProfile st)) now = Some rs"
  shows "searchMovies query now st
       = show_search_results rs
           (snd (new_controller Search
              (abort (recsController st)
                 (abort (searchController st)
                    (hideSuggestions (st\<lparr>loading_spinner_hidden := False\<rparr>))))))"
    and "requests (fst (searchMovies query now st)) = requests st"
proof -
  have same: "recsController (abort c s) = recsController s" for c s
    by (simp add: abort_def split: option.splits)
  show run: "searchMovies query now st
       = show_search_results rs
           (snd (new_controller Search
              (abort (recsController st)
                 (abort (searchController st)
                    (hideSuggestions (st\<lparr>loading_spinner_hidden := False\<rparr>))))))"
    using assms
    by (simp add: searchMovies_def Let_def split_beta same)
       (simp add: hideSuggestions_def abort_def new_controller_def Let_def
          split: option.splits)
  show "requests (fst (searchMovies query now st)) = requests st"
    unfolding run
    by (simp add: show_search_results_def Let_def hideSuggestions_def abort_def
          new_controller_def split: response.splits list.splits option.splits)
qed







subsection \<open>Suggestions for short queries\<close>

lemma trim_empty_all_space: "trim s = [] \<Longrightarrow> \<forall>c\<in>set s. is_space c"
proof -
  assume "trim s = []"
  then have all: "\<forall>c\<in>set (dropWhile is_space s). is_space c"
    by (simp add: trim_def dropWhile_eq_Nil_conv)
  have "dropWhile is_space s = []"
  proof (rule ccontr)
    assume ne: "dropWhile is_space s \<noteq> []"
    then have "\<not> is_space (hd (dropWhile is_space s))" by (rule hd_dropWhile)
    moreover from ne have "hd (dropWhile is_space s) \<in> set (dropWhile is_space s)" by simp
    ultimately show False using all by blast
  qed
  then show ?thesis by (simp add: dropWhile_eq_Nil_conv)
qed

lemma lower_char_space: "is_space c \<Longrightarrow> lower_char c = c"
  by (auto simp: is_space_def lower_char_def)

lemma includes_str_adjacent:
  "includes_str t (a # b # r) \<Longrightarrow> (a, b) \<in> set (zip t (tl t))"
proof (induction t)
  case Nil
  then show ?case by simp
next
  case (Cons c s)
  show ?case
  proof (cases "startsWith (c # s) (a # b # r)")
    case True
    then show ?thesis by (cases s) (auto simp: startsWith_def)
  next
    case False
    with Cons.prems have "includes_str s (a # b # r)" by simp
    then have "(a, b) \<in> set (zip s (tl s))" by (rule Cons.IH)
    then show ?thesis by (cases s) auto
  qed
qed

text \<open>No title of the local list has two white-space characters in a row.\<close>

lemma titles_single_spaced:
  "list_all (\<lambda>m. list_all (\<lambda>(a, b). \<not> (is_space a \<and> is_space b))
      (zip (toLowerCase (title m)) (tl (toLowerCase (title m))))) commonMovies"
  by code_simp

lemma blank_query_no_match:
  assumes "2 \<le> length query" and "trim query = []"
  shows "getImmediateSuggestions query = []"
proof -
  from assms(2) have sp: "\<forall>c\<in>set query. is_space c" by (rule trim_empty_all_space)
  then have low: "toLowerCase query = query"
    by (simp add: toLowerCase_def lower_char_space map_idI)
  from assms(1) obtain a b r where q: "query = a # b # r"
    by (cases query; cases "tl query") auto
  with sp have ab: "is_space a" "is_space b" by simp_all
  have "\<not> includes_str (toLowerCase (title m)) query" if "m \<in> set commonMovies" for m
  proof
    assume "includes_str (toLowerCase (title m)) query"
    then have "(a, b) \<in> set (zip (toLowerCase (title m)) (tl (toLowerCase (title m))))"
      unfolding q by (rule includes_str_adjacent)
    moreover from titles_single_spaced that
    have "\<forall>(x, y)\<in>set (zip (toLowerCase (title m)) (tl (toLowerCase (title m)))).
            \<not> (is_space x \<and> is_space y)"
      by (simp add: list_all_iff)
    ultimately show False using ab by blast
  qed
  then show ?thesis
    by (simp add: getImmediateSuggestions_def Let_def low filter_empty_conv)
qed

text \<open>
  Claim C2, as the code has it. For every query of length 2 or 3 that matches a title of
  the local list, \<^verbatim>\<open>getSearchSuggestions\<close> ends at once: it shows the first four
  titles that contain the query, letter case ignored, keeps them as the current
  suggestions, sends no request, aborts nothing and leaves the suggestion cache alone,
  whatever the cache holds. A query of length 0 or 1 is turned away before the local list
  is looked at: the suggestions are hidden.
\<close>

theorem short_query_shows_local_matches:
  "(2 \<le> length query \<and> length query \<le> 3 \<and> getImmediateSuggestions query \<noteq> [] \<longrightarrow>
     getSearchSuggestions query now st
       = (displaySuggestions (getImmediateSuggestions query)
            (st\<lparr>currentSuggestions := getImmediateSuggestions query\<rparr>), Finished) \<and>
     suggestions_content (fst (getSearchSuggestions query now st))
       = take 4 (filter (\<lambda>m. includes_str (toLowerCase (title m)) (toLowerCase query))
                   commonMovies) \<and>
     currentSuggestions (fst (getSearchSuggestions query now st))
       = suggestions_content (fst (getSearchSuggestions query now st)) \<and>
     \<not> suggestions_hidden (fst (getSearchSuggestions query now st)) \<and>
     requests (fst (getSearchSuggestions query now st)) = requests st \<and>
     aborted (fst (getSearchSuggestions query now st)) = aborted st \<and>
     suggestionsController (fst (getSearchSuggestions query now st)) = suggestionsController st \<and>
     suggestionCache (fst (getSearchSuggestions query now st)) = suggestionCache st) \<and>
   (length query < 2 \<longrightarrow>
      getSearchSuggestions query now st = (hideSuggestions st, Finished))"
proof (rule conjI [OF impI impI])
  assume h: "2 \<le> length query \<and> length query \<le> 3 \<and> getImmediateSuggestions query \<noteq> []"
  then have "trim query \<noteq> []" using blank_query_no_match [of query] by blast
  with h have run: "getSearchSuggestions query now st
       = (displaySuggestions (getImmediateSuggestions query)
            (st\<lparr>currentSuggestions := getImmediateSuggestions query\<rparr>), Finished)"
    by (simp add: getSearchSuggestions_def)
  have loc: "getImmediateSuggestions query
       = take 4 (filter (\<lambda>m. includes_str (toLowerCase (title m)) (toLowerCase query))
                   commonMovies)"
    by (simp add: getImmediateSuggestions_def)
  have shown: "suggestions_content (displaySuggestions ms s) = ms"
    "\<not> suggestions_hidden (displaySuggestions ms s)"
    "requests (displaySuggestions ms s) = requests s"
    "aborted (displaySuggestions ms s) = aborted s"
    "suggestionsController (displaySuggestions ms s) = suggestionsController s"
    "suggestionCache (displaySuggestions ms s) = suggestionCache s"
    "currentSuggestions (displaySuggestions ms s) = currentSuggestions s" for ms s
    by (simp_all add: displaySuggestions_def)
  show "getSearchSuggestions query now st
       = (displaySuggestions (getImmediateSuggestions query)
            (st\<lparr>currentSuggestions := getImmediateSuggestions query\<rparr>), Finished) \<and>
     suggestions_content (fst (getSearchSuggestions query now st))
       = take 4 (filter (\<lambda>m. includes_str (toLowerCase (title m)) (toLowerCase query))
                   commonMovies) \<and>
     currentSuggestions (fst (getSearchSuggestions query now st))
       = suggestions_content (fst (getSearchSuggestions query now st)) \<and>
     \<not> suggestions_hidden (fst (getSearchSuggestions query now st)) \<and>
     requests (fst (getSearchSuggestions query now st)) = requests st \<and>
     aborted (fst (getSearchSuggestions query now st)) = aborted st \<and>
     suggestionsController (fst (getSearchSuggestions query now st)) = suggestionsController st \<and>
     suggestionCache (fst (getSearchSuggestions query now st)) = suggestionCache st"
    unfolding run by (simp add: shown loc [symmetric])
next
  assume "length query < 2"
  then show "getSearchSuggestions query now st = (hideSuggestions st, Finished)"
    by (simp add: getSearchSuggestions_def)
qed

theorem short_query_shows_local_matches_witness:
  "map title (suggestions_content (fst (getSearchSuggestions ''av'' 0 initial_app)))
     = [''Avatar'', ''The Avengers''] \<and>
   \<not> suggestions_hidden (fst (getSearchSuggestions ''av'' 0 initial_app)) \<and>
   requests (fst (getSearchSuggestions ''av'' 0 initial_app)) = []"
proof -
  have av: "map title (take 4 (filter (\<lambda>m. includes_str (toLowerCase (title m))
      (toLowerCase ''av'')) commonMovies)) = [''Avatar'', ''The Avengers'']"
    by code_simp
  have "map title (getImmediateSuggestions ''av'') = [''Avatar'', ''The Avengers'']"
    by code_simp
  then have ne: "getImmediateSuggestions ''av'' \<noteq> []" by auto
  have len: "2 \<le> length ''av''" "length ''av'' \<le> 3" by simp_all
  from short_query_shows_local_matches [of "''av''" 0 initial_app] ne len
  have "suggestions_content (fst (getSearchSuggestions ''av'' 0 initial_app))
       = take 4 (filter (\<lambda>m. includes_str (toLowerCase (title m)) (toLowerCase ''av''))
                   commonMovies)"
    and "\<not> suggestions_hidden (fst (getSearchSuggestions ''av'' 0 initial_app))"
    and "requests (fst (getSearchSuggestions ''av'' 0 initial_app)) = requests initial_app"
    by blast+
  then show ?thesis using av by (simp add: initial_app_def)
qed

text \<open>
  The query \<open>a\<close>, of length 1: the suggestions are hidden and nothing is shown. The
  local list itself, asked for \<open>a\<close>, gives four titles, neither of them Avatar or The
  Avengers.
\<close>

theorem single_letter_query_counterexample:
  "getSearchSuggestions ''a'' 0 initial_app = (hideSuggestions initial_app, Finished) \<and>
   suggestions_hidden (hideSuggestions initial_app) \<and>
   map title (getImmediateSuggestions ''a'')
     = [''The Dark Knight'', ''Interstellar'', ''The Matrix'', ''The Godfather'']"
proof -
  have "map title (getImmediateSuggestions ''a'')
     = [''The Dark Knight'', ''Interstellar'', ''The Matrix'', ''The Godfather'']"
    by code_simp
  then show ?thesis by (simp add: getSearchSuggestions_def hideSuggestions_def)
qed

subsection \<open>Debouncing\<close>

lemma queries_append: "queries (xs @ ys) = queries xs @ queries ys"
  by (induction xs rule: queries.induct) simp_all

lemma queries_on_input: "queries (map (Pair t) (snd (on_input v now tm))) = []"
  by (simp add: on_input_def Let_def)

lemma on_input_timer:
  "fst (on_input v now tm) = (if trim v = [] then None else Some (now + 150, trim v))"
  by (simp add: on_input_def Let_def)

lemma run_timer_early:
  "(\<forall>due q. tm = Some (due, q) \<longrightarrow> now < due) \<Longrightarrow> run_timer now tm = (tm, [])"
  by (auto simp: run_timer_def split: option.splits)

lemma keystrokes_step:
  "keystrokes ((t, v) # ks) tm =
     (fst (keystrokes ks (fst (on_input v t (fst (run_timer t tm))))),
      snd (run_timer t tm) @ map (Pair t) (snd (on_input v t (fst (run_timer t tm))))
        @ snd (keystrokes ks (fst (on_input v t (fst (run_timer t tm))))))"
  by (simp add: split_beta Let_def)

lemma keystrokes_quick:
  "in_quick_succession ((t, v) # ks) \<Longrightarrow> (\<forall>due q. tm = Some (due, q) \<longrightarrow> t < due) \<Longrightarrow>
     fst (keystrokes ((t, v) # ks) tm)
       = (if trim (snd (last ((t, v) # ks))) = [] then None
          else Some (fst (last ((t, v) # ks)) + 150, trim (snd (last ((t, v) # ks))))) \<and>
     queries (snd (keystrokes ((t, v) # ks) tm)) = []"
proof (induction ks arbitrary: t v tm)
  case Nil
  from Nil.prems(2) have "run_timer t tm = (tm, [])" by (rule run_timer_early)
  then show ?case
    by (simp add: keystrokes_step on_input_timer queries_append queries_on_input
          del: keystrokes.simps(2))
next
  case (Cons k ks)
  obtain t2 v2 where k: "k = (t2, v2)" by (cases k)
  from Cons.prems(1) k have gap: "t \<le> t2" "t2 - t < 150"
    and rest: "in_quick_succession ((t2, v2) # ks)" by simp_all
  let ?tm2 = "fst (on_input v t tm)"
  from gap have early: "\<forall>due q. ?tm2 = Some (due, q) \<longrightarrow> t2 < due"
    by (simp add: on_input_timer)
  note IH = Cons.IH [OF rest early]
  from Cons.prems(2) have first: "run_timer t tm = (tm, [])" by (rule run_timer_early)
  have step: "keystrokes ((t, v) # (t2, v2) # ks) tm
      = (fst (keystrokes ((t2, v2) # ks) ?tm2),
         map (Pair t) (snd (on_input v t tm)) @ snd (keystrokes ((t2, v2) # ks) ?tm2))"
    by (subst keystrokes_step) (simp add: first del: keystrokes.simps(2))
  show ?case unfolding k step using IH
    by (simp add: queries_append queries_on_input del: keystrokes.simps(2))
qed

text \<open>
  Claim C9, as the code has it. Keystrokes that each come less than 150 ms after the one
  before, on an idle handler, start exactly one suggestion query, 150 ms after the last
  keystroke and with the trimmed text of the input, when that text is not blank; when the
  last keystroke leaves the input blank, they start none. Every keystroke replaces
  whatever timer was pending: by a timer due 150 ms later, or by none when the input is
  blank, and then it hides the suggestions at once.
\<close>

theorem debounce_one_query_after_last_keystroke:
  "(ks \<noteq> [] \<and> in_quick_succession ks \<and> fst (last ks) + 150 \<le> until \<longrightarrow>
      queries (typing ks until)
        = (if trim (snd (last ks)) = [] then []
           else [(fst (last ks) + 150, trim (snd (last ks)))])) \<and>
   fst (on_input v now pendingTimer)
     = (if trim v = [] then None else Some (now + 150, trim v)) \<and>
   snd (on_input v now pendingTimer) = (if trim v = [] then [HideSuggestions] else [])"
proof (intro conjI impI)
  assume h: "ks \<noteq> [] \<and> in_quick_succession ks \<and> fst (last ks) + 150 \<le> until"
  then obtain t v' rest where ks: "ks = (t, v') # rest" by (cases ks) auto
  have idle: "\<forall>due q. (None :: timer option) = Some (due, q) \<longrightarrow> t < due" by simp
  from h ks have "in_quick_succession ((t, v') # rest)" by simp
  from keystrokes_quick [OF this idle]
  have tm: "fst (keystrokes ks None)
       = (if trim (snd (last ks)) = [] then None
          else Some (fst (last ks) + 150, trim (snd (last ks))))"
    and quiet: "queries (snd (keystrokes ks None)) = []"
    unfolding ks by blast+
  from h have due: "fst (last ks) + 150 \<le> until" by simp
  show "queries (typing ks until)
        = (if trim (snd (last ks)) = [] then []
           else [(fst (last ks) + 150, trim (snd (last ks)))])"
    using tm quiet due
    by (simp add: typing_def split_beta Let_def queries_append run_timer_def)
next
  show "fst (on_input v now pendingTimer)
     = (if trim v = [] then None else Some (now + 150, trim v))"
    by (rule on_input_timer)
next
  show "snd (on_input v now pendingTimer) = (if trim v = [] then [HideSuggestions] else [])"
    by (simp add: on_input_def Let_def)
qed

theorem debounce_one_query_after_last_keystroke_witness:
  "queries (typing [(0, ''m''), (90, ''ma''), (200, ''mat'')] 1000) = [(350, ''mat'')] \<and>
   fst (on_input ''mat'' 200 (Some (240, ''ma''))) = Some (350, ''mat'')"
proof -
  have tr: "trim ''mat'' = ''mat''" by (simp add: trim_def is_space_def)
  have "[(0 :: int, ''m''), (90, ''ma''), (200, ''mat'')] \<noteq> [] \<and>
      in_quick_succession [(0, ''m''), (90, ''ma''), (200, ''mat'')] \<and>
      fst (last [(0 :: int, ''m''), (90, ''ma''), (200, ''mat'')]) + 150 \<le> 1000"
    by simp
  with debounce_one_query_after_last_keystroke
         [of "[(0, ''m''), (90, ''ma''), (200, ''mat'')]" 1000 "''mat''" 200 "Some (240, ''ma'')"]
  show ?thesis by (simp add: tr)
qed

text \<open>
  Two keystrokes 100 ms apart, the second one emptying the input: the suggestions are
  hidden and no query is ever started.
\<close>

theorem debounce_blank_input_counterexample:
  "in_quick_succession [(0, ''a''), (100, '''')] \<and>
   queries (typing [(0, ''a''), (100, '''')] 1000) = [] \<and>
   typing [(0, ''a''), (100, '''')] 1000 = [(100, HideSuggestions)]"
  by code_simp

subsection \<open>A search without results\<close>

lemma show_search_results_empty:
  "show_search_results (Array []) st
     = (st\<lparr>search_results_hidden := True, recommendations_hidden := True,
           focus_calls := Suc (focus_calls st), loading_spinner_hidden := True\<rparr>, Finished)"
  by (simp add: show_search_results_def)

lemma getSearchSuggestions_requests:
  "requests (fst (getSearchSuggestions query now st)) = requests st \<or>
   (\<exists>p k. requests (fst (getSearchSuggestions query now st))
            = requests st @ [SuggestionsRequest p k])"
  by (simp add: getSearchSuggestions_def Let_def split_beta hideSuggestions_def
        displaySuggestions_def begin_request_def new_controller_def abort_def
        controller_of_def split: option.splits)

lemma focus_listener_requests:
  "requests (fst (focus_listener v now st)) = requests st \<or>
   (\<exists>p k. requests (fst (focus_listener v now st)) = requests st @ [SuggestionsRequest p k])"
  using getSearchSuggestions_requests [of "trim v" now st]
  by (simp add: focus_listener_def Let_def displaySuggestions_def)

text \<open>
  Claim C8. A search whose result list is empty, from the network (under a controller
  that was not aborted) or from the cache, ends on the ordinary path, not in the
  \<^verbatim>\<open>catch\<close> block: the search results and the recommendations are both hidden, no
  request is sent, so none for recommendations, and the profile with its history is as
  before; the search input is given the focus once, and when its focus listener runs, the
  one request it may send is a suggestions request; a list from the network is cached
  like any other.
\<close>

theorem empty_search_result_hides_both_sections:
  "(c \<notin> set (aborted st) \<longrightarrow>
      snd (search_settled c key (Resolved (Array [])) now st) = Finished \<and>
      search_results_hidden (fst (search_settled c key (Resolved (Array [])) now st)) \<and>
      recommendations_hidden (fst (search_settled c key (Resolved (Array [])) now st)) \<and>
      requests (fst (search_settled c key (Resolved (Array [])) now st)) = requests st \<and>
      userProfile (fst (search_settled c key (Resolved (Array [])) now st)) = userProfile st \<and>
      recsController (fst (search_settled c key (Resolved (Array [])) now st))
        = recsController st \<and>
      focus_calls (fst (search_settled c key (Resolved (Array [])) now st))
        = Suc (focus_calls st) \<and>
      (requests (fst (focus_listener v t
           (fst (search_settled c key (Resolved (Array [])) now st)))) = requests st \<or>
       (\<exists>p k. requests (fst (focus_listener v t
           (fst (search_settled c key (Resolved (Array [])) now st))))
          = requests st @ [SuggestionsRequest p k])) \<and>
      cache_lookup (searchResultCache (fst (search_settled c key (Resolved (Array [])) now st)))
        key now = Some (Array [])) \<and>
   (trim query \<noteq> [] \<and>
    cache_lookup (searchResultCache st) (searchCacheKey query (userProfile st)) now
      = Some (Array []) \<longrightarrow>
      snd (searchMovies query now st) = Finished \<and>
      search_results_hidden (fst (searchMovies query now st)) \<and>
      recommendations_hidden (fst (searchMovies query now st)) \<and>
      requests (fst (searchMovies query now st)) = requests st \<and>
      userProfile (fst (searchMovies query now st)) = userProfile st \<and>
      focus_calls (fst (searchMovies query now st)) = Suc (focus_calls st) \<and>
      (requests (fst (focus_listener v t (fst (searchMovies query now st)))) = requests st \<or>
       (\<exists>p k. requests (fst (focus_listener v t (fst (searchMovies query now st))))
          = requests st @ [SuggestionsRequest p k])))"
proof (intro conjI impI)
  assume live: "c \<notin> set (aborted st)"
  have run: "search_settled c key (Resolved (Array [])) now st
      = (st\<lparr>searchResultCache := cache_store (searchResultCache st) key (Array []) now,
             search_results_hidden := True, recommendations_hidden := True,
             focus_calls := Suc (focus_calls st), loading_spinner_hidden := True\<rparr>, Finished)"
    using live by (simp add: search_settled_def delivered_def show_search_results_empty)
  show "snd (search_settled c key (Resolved (Array [])) now st) = Finished"
    and "search_results_hidden (fst (search_settled c key (Resolved (Array [])) now st))"
    and "recommendations_hidden (fst (search_settled c key (Resolved (Array [])) now st))"
    and "requests (fst (search_settled c key (Resolved (Array [])) now st)) = requests st"
    and "userProfile (fst (search_settled c key (Resolved (Array [])) now st)) = userProfile st"
    and "recsController (fst (search_settled c key (Resolved (Array [])) now st))
        = recsController st"
    and "focus_calls (fst (search_settled c key (Resolved (Array [])) now st))
        = Suc (focus_calls st)"
    and "cache_lookup (searchResultCache (fst (search_settled c key (Resolved (Array [])) now st)))
        key now = Some (Array [])"
    unfolding run by (simp_all add: cache_lookup_store CACHE_TTL_MS_def)
  have "requests (fst (search_settled c key (Resolved (Array [])) now st)) = requests st"
    unfolding run by simp
  with focus_listener_requests [of v t "fst (search_settled c key (Resolved (Array [])) now st)"]
  show "requests (fst (focus_listener v t
           (fst (search_settled c key (Resolved (Array [])) now st)))) = requests st \<or>
       (\<exists>p k. requests (fst (focus_listener v t
           (fst (search_settled c key (Resolved (Array [])) now st))))
          = requests st @ [SuggestionsRequest p k])"
    by simp
next
  assume hit: "trim query \<noteq> [] \<and>
    cache_lookup (searchResultCache st) (searchCacheKey query (userProfile st)) now
      = Some (Array [])"
  then show "snd (searchMovies query now st) = Finished"
    and "search_results_hidden (fst (searchMovies query now st))"
    and "recommendations_hidden (fst (searchMovies query now st))"
    and "requests (fst (searchMovies query now st)) = requests st"
    and "userProfile (fst (searchMovies query now st)) = userProfile st"
    and "focus_calls (fst (searchMovies query now st)) = Suc (focus_calls st)"
    by (simp_all add: searchMovies_def Let_def hideSuggestions_def abort_def
          new_controller_def show_search_results_def split: option.splits)
  from hit have "requests (fst (searchMovies query now st)) = requests st"
    by (simp add: searchMovies_hit(2))
  with focus_listener_requests [of v t "fst (searchMovies query now st)"]
  show "requests (fst (focus_listener v t (fst (searchMovies query now st)))) = requests st \<or>
       (\<exists>p k. requests (fst (focus_listener v t (fst (searchMovies query now st))))
          = requests st @ [SuggestionsRequest p k])"
    by simp
qed

theorem empty_search_result_hides_both_sections_witness:
  "recommendations_hidden
     (fst (search_settled 0 ''k'' (Resolved (Array [])) 5
        (initial_app\<lparr>recommendations_hidden := False, search_results_hidden := False\<rparr>))) \<and>
   search_results_hidden
     (fst (search_settled 0 ''k'' (Resolved (Array [])) 5
        (initial_app\<lparr>recommendations_hidden := False, search_results_hidden := False\<rparr>))) \<and>
   recommendations_hidden
     (fst (searchMovies ''zzzzzznotfound'' 5
        (initial_app\<lparr>searchResultCache :=
           cache_store Map.empty (searchCacheKey ''zzzzzznotfound'' initial_profile) (Array []) 0,
           recommendations_hidden := False\<rparr>))) \<and>
   requests
     (fst (searchMovies ''zzzzzznotfound'' 5
        (initial_app\<lparr>searchResultCache :=
           cache_store Map.empty (searchCacheKey ''zzzzzznotfound'' initial_profile) (Array []) 0,
           recommendations_hidden := False\<rparr>))) = []"
proof -
  have q: "trim ''zzzzzznotfound'' \<noteq> []" by (simp add: trim_def is_space_def)
  note net = empty_search_result_hides_both_sections
      [where c = 0 and key = "''k''" and now = 5 and query = "''zzzzzznotfound''"
         and st = "initial_app\<lparr>recommendations_hidden := False, search_results_hidden := False\<rparr>"]
  note hit = empty_search_result_hides_both_sections
      [where c = 0 and key = "''k''" and now = 5 and query = "''zzzzzznotfound''"
         and st = "initial_app\<lparr>searchResultCache :=
           cache_store Map.empty (searchCacheKey ''zzzzzznotfound'' initial_profile) (Array []) 0,
           recommendations_hidden := False\<rparr>"]
  have a: "recommendations_hidden
     (fst (search_settled 0 ''k'' (Resolved (Array [])) 5
        (initial_app\<lparr>recommendations_hidden := False, search_results_hidden := False\<rparr>))) \<and>
   search_results_hidden
     (fst (search_settled 0 ''k'' (Resolved (Array [])) 5
        (initial_app\<lparr>recommendations_hidden := False, search_results_hidden := False\<rparr>)))"
    using net by (simp add: initial_app_def)
  have b: "recommendations_hidden
     (fst (searchMovies ''zzzzzznotfound'' 5
        (initial_app\<lparr>searchResultCache :=
           cache_store Map.empty (searchCacheKey ''zzzzzznotfound'' initial_profile) (Array []) 0,
           recommendations_hidden := False\<rparr>))) \<and>
   requests
     (fst (searchMovies ''zzzzzznotfound'' 5
        (initial_app\<lparr>searchResultCache :=
           cache_store Map.empty (searchCacheKey ''zzzzzznotfound'' initial_profile) (Array []) 0,
           recommendations_hidden := False\<rparr>))) = []"
    using hit q by (simp add: initial_app_def cache_lookup_store CACHE_TTL_MS_def)
  from a b show ?thesis by simp
qed

subsection \<open>Completions of superseded requests\<close>

lemma search_settled_stale:
  "c \<in> set (aborted st) \<Longrightarrow>
     search_settled c key out now st = (st\<lparr>loading_spinner_hidden := True\<rparr>, Finished)"
  by (simp add: search_settled_def delivered_def)

lemma recommendations_settled_stale:
  "c \<in> set (aborted st) \<Longrightarrow>
     recommendations_settled c out st = st\<lparr>loading_spinner_hidden := True\<rparr>"
  by (simp add: recommendations_settled_def delivered_def)

text \<open>
  Two searches, the second one started while the request of the first is in flight: when
  that request settles, whatever the network delivered and whenever, nothing changes but
  the spinner. No cache entry, no history entry, no results shown.
\<close>

theorem superseded_search_changes_nothing:
  "trim q1 \<noteq> [] \<and> trim q2 \<noteq> [] \<and> snd (searchMovies q1 t1 st) = SearchFetch c key \<longrightarrow>
     search_settled c key out t3 (fst (searchMovies q2 t2 (fst (searchMovies q1 t1 st))))
       = ((fst (searchMovies q2 t2 (fst (searchMovies q1 t1 st))))
            \<lparr>loading_spinner_hidden := True\<rparr>, Finished)"
proof (intro impI)
  assume h: "trim q1 \<noteq> [] \<and> trim q2 \<noteq> [] \<and> snd (searchMovies q1 t1 st) = SearchFetch c key"
  let ?s1 = "fst (searchMovies q1 t1 st)"
  from h have held: "searchController ?s1 = Some (controllers st)"
    by (simp add: searchMovies_controllers)
  from h have "c = controllers st"
    by (auto simp: searchMovies_def Let_def hideSuggestions_def abort_def new_controller_def
          show_search_results_def split: option.splits response.splits list.splits)
  with held h have "c \<in> set (aborted (fst (searchMovies q2 t2 ?s1)))"
    by (simp add: searchMovies_controllers)
  then show "search_settled c key out t3 (fst (searchMovies q2 t2 ?s1))
       = ((fst (searchMovies q2 t2 ?s1))\<lparr>loading_spinner_hidden := True\<rparr>, Finished)"
    by (rule search_settled_stale)
qed

theorem superseded_search_changes_nothing_witness:
  "snd (searchMovies ''matrix'' 0 initial_app)
     = SearchFetch 0 (searchCacheKey ''matrix'' initial_profile) \<and>
   search_settled 0 (searchCacheKey ''matrix'' initial_profile)
       (Resolved (Array [plain_movie ''The Matrix'' 603])) 500
       (fst (searchMovies ''inception'' 50 (fst (searchMovies ''matrix'' 0 initial_app))))
     = ((fst (searchMovies ''inception'' 50 (fst (searchMovies ''matrix'' 0 initial_app))))
          \<lparr>loading_spinner_hidden := True\<rparr>, Finished)"
proof -
  have q: "trim ''matrix'' \<noteq> []" "trim ''inception'' \<noteq> []"
    by (simp_all add: trim_def is_space_def)
  have miss: "cache_lookup (searchResultCache initial_app)
      (searchCacheKey ''matrix'' (userProfile initial_app)) 0 = None"
    by (simp add: cache_lookup_def initial_app_def)
  from searchMovies_miss(1) [OF q(1) miss]
  have first: "snd (searchMovies ''matrix'' 0 initial_app)
     = SearchFetch 0 (searchCacheKey ''matrix'' initial_profile)"
    by (simp add: initial_app_def)
  with q superseded_search_changes_nothing
         [of "''matrix''" "''inception''" 0 initial_app 0
             "searchCacheKey ''matrix'' initial_profile"
             "Resolved (Array [plain_movie ''The Matrix'' 603])" 500 50]
  show ?thesis by simp
qed

lemma getSearchSuggestions_local:
  assumes "trim query \<noteq> []" and "2 \<le> length query" and "length query \<le> 3"
    and "getImmediateSuggestions query \<noteq> []"
  shows "getSearchSuggestions query now st
       = (displaySuggestions (getImmediateSuggestions query)
            (st\<lparr>currentSuggestions := getImmediateSuggestions query\<rparr>), Finished)"
  using assms by (simp add: getSearchSuggestions_def)

lemma getSearchSuggestions_uncached:
  assumes "trim query \<noteq> []" and "3 < length query"
    and "suggestionCache st (suggestionCacheKey query (userProfile st)) = None"
  shows "getSearchSuggestions query now st
       = ((abort (suggestionsController st) st)
            \<lparr>controllers := Suc (controllers st),
             suggestionsController := Some (controllers st),
             requests := requests st
               @ [SuggestionsRequest (suggestion_params query (userProfile st)) (controllers st)]\<rparr>,
          SuggestionsFetch (controllers st) (suggestionCacheKey query (userProfile st)))"
  using assms
  by (simp add: getSearchSuggestions_def Let_def begin_request_def controller_of_def
        abort_def new_controller_def cache_lookup_def split: option.splits)

lemma suggestions_settled_stale:
  "c \<in> set (aborted st) \<Longrightarrow>
     suggestions_settled c key out now st = displaySuggestions [] (st\<lparr>currentSuggestions := []\<rparr>)"
  by (simp add: suggestions_settled_def delivered_def)

lemma aborted_suggestion_request_clears_the_list:
  "snd (getSearchSuggestions ''matr'' 1000 (fst (getSearchSuggestions ''ma'' 0 initial_app)))
     = SuggestionsFetch 0 ''matr|en|1'' \<and>
   snd (getSearchSuggestions ''matri'' 1200
          (fst (getSearchSuggestions ''matr'' 1000
             (fst (getSearchSuggestions ''ma'' 0 initial_app)))))
     = SuggestionsFetch 1 ''matri|en|1'' \<and>
   map title (suggestions_content
     (fst (getSearchSuggestions ''matri'' 1200
        (fst (getSearchSuggestions ''matr'' 1000
           (fst (getSearchSuggestions ''ma'' 0 initial_app)))))))
     = [''The Matrix''] \<and>
   aborted
     (fst (getSearchSuggestions ''matri'' 1200
        (fst (getSearchSuggestions ''matr'' 1000
           (fst (getSearchSuggestions ''ma'' 0 initial_app))))))
     = [0] \<and>
   suggestions_content
     (suggestions_settled 0 ''matr|en|1'' (Resolved (Array [plain_movie ''The Matrix'' 603])) 1300
        (fst (getSearchSuggestions ''matri'' 1200
           (fst (getSearchSuggestions ''matr'' 1000
              (fst (getSearchSuggestions ''ma'' 0 initial_app)))))))
     = [] \<and>
   currentSuggestions
     (suggestions_settled 0 ''matr|en|1'' (Resolved (Array [plain_movie ''The Matrix'' 603])) 1300
        (fst (getSearchSuggestions ''matri'' 1200
           (fst (getSearchSuggestions ''matr'' 1000
              (fst (getSearchSuggestions ''ma'' 0 initial_app)))))))
     = [] \<and>
   \<not> suggestions_hidden
     (suggestions_settled 0 ''matr|en|1'' (Resolved (Array [plain_movie ''The Matrix'' 603])) 1300
        (fst (getSearchSuggestions ''matri'' 1200
           (fst (getSearchSuggestions ''matr'' 1000
              (fst (getSearchSuggestions ''ma'' 0 initial_app)))))))"
proof -
  have ma: "map title (getImmediateSuggestions ''ma'') = [''The Matrix'']"
    by code_simp
  then have ne: "getImmediateSuggestions ''ma'' \<noteq> []" by auto
  have blank: "trim ''ma'' \<noteq> []" "trim ''matr'' \<noteq> []" "trim ''matri'' \<noteq> []"
    by (simp_all add: trim_def is_space_def)
  have keys: "suggestionCacheKey ''matr'' initial_profile = ''matr|en|1''"
    "suggestionCacheKey ''matri'' initial_profile = ''matri|en|1''"
    by (simp_all add: suggestionCacheKey_def initial_profile_def)
  define s1 where "s1 = fst (getSearchSuggestions ''ma'' 0 initial_app)"
  define s2 where "s2 = fst (getSearchSuggestions ''matr'' 1000 s1)"
  define s3 where "s3 = fst (getSearchSuggestions ''matri'' 1200 s2)"
  have s1: "s1 = displaySuggestions (getImmediateSuggestions ''ma'')
              (initial_app\<lparr>currentSuggestions := getImmediateSuggestions ''ma''\<rparr>)"
    unfolding s1_def using blank ne by (simp add: getSearchSuggestions_local)
  have f1: "userProfile s1 = initial_profile" "suggestionCache s1 = Map.empty"
    "controllers s1 = 0" "suggestionsController s1 = None" "aborted s1 = []"
    "suggestions_content s1 = getImmediateSuggestions ''ma''"
    unfolding s1 using ne by (simp_all add: displaySuggestions_def initial_app_def)
  have r2: "getSearchSuggestions ''matr'' 1000 s1
      = ((abort (suggestionsController s1) s1)
            \<lparr>controllers := Suc (controllers s1),
             suggestionsController := Some (controllers s1),
             requests := requests s1
               @ [SuggestionsRequest (suggestion_params ''matr'' (userProfile s1)) (controllers s1)]\<rparr>,
          SuggestionsFetch (controllers s1) (suggestionCacheKey ''matr'' (userProfile s1)))"
    using blank by (intro getSearchSuggestions_uncached) (simp_all add: f1)
  have f2: "userProfile s2 = initial_profile" "suggestionCache s2 = Map.empty"
    "controllers s2 = 1" "suggestionsController s2 = Some 0" "aborted s2 = []"
    "suggestions_content s2 = getImmediateSuggestions ''ma''"
    unfolding s2_def r2 by (simp_all add: f1 abort_def)
  have r3: "getSearchSuggestions ''matri'' 1200 s2
      = ((abort (suggestionsController s2) s2)
            \<lparr>controllers := Suc (controllers s2),
             suggestionsController := Some (controllers s2),
             requests := requests s2
               @ [SuggestionsRequest (suggestion_params ''matri'' (userProfile s2)) (controllers s2)]\<rparr>,
          SuggestionsFetch (controllers s2) (suggestionCacheKey ''matri'' (userProfile s2)))"
    using blank by (intro getSearchSuggestions_uncached) (simp_all add: f2)
  have f3: "aborted s3 = [0]" "suggestions_content s3 = getImmediateSuggestions ''ma''"
    unfolding s3_def r3 by (simp_all add: f2 abort_def)
  have p2: "snd (getSearchSuggestions ''matr'' 1000 s1) = SuggestionsFetch 0 ''matr|en|1''"
    unfolding r2 by (simp add: f1 keys)
  have p3: "snd (getSearchSuggestions ''matri'' 1200 s2) = SuggestionsFetch 1 ''matri|en|1''"
    unfolding r3 by (simp add: f2 keys)
  have "0 \<in> set (aborted s3)" by (simp add: f3)
  then have late: "suggestions_settled 0 ''matr|en|1''
        (Resolved (Array [plain_movie ''The Matrix'' 603])) 1300 s3
      = displaySuggestions [] (s3\<lparr>currentSuggestions := []\<rparr>)"
    by (rule suggestions_settled_stale)
  have f4: "suggestions_content (suggestions_settled 0 ''matr|en|1''
        (Resolved (Array [plain_movie ''The Matrix'' 603])) 1300 s3) = []"
    "currentSuggestions (suggestions_settled 0 ''matr|en|1''
        (Resolved (Array [plain_movie ''The Matrix'' 603])) 1300 s3) = []"
    "\<not> suggestions_hidden (suggestions_settled 0 ''matr|en|1''
        (Resolved (Array [plain_movie ''The Matrix'' 603])) 1300 s3)"
    unfolding late by (simp_all add: displaySuggestions_def)
  from p2 p3 f3 f4 ma show ?thesis
    unfolding s3_def s2_def s1_def by simp
qed

lemma stale_personalised_recommendations_are_shown:
  "aborted (personalized_started (personalized_started initial_app)) = [0] \<and>
   recsController (personalized_started (personalized_started initial_app)) = Some 1 \<and>
   user_recommendation_movies
     (personalized_settled (Resolved (Array [plain_movie ''Inception'' 27205]))
        (personalized_started (personalized_started initial_app)))
     = Cards [plain_movie ''Inception'' 27205] \<and>
   user_recommendation_movies
     (personalized_settled (Resolved (Array [plain_movie ''Titanic'' 597]))
        (personalized_settled (Resolved (Array [plain_movie ''Inception'' 27205]))
           (personalized_started (personalized_started initial_app))))
     = Cards [plain_movie ''Titanic'' 597]"
  by code_simp

text \<open>
  Claim C1, where the code falls short of it. On the suggestions channel: the local
  match for \<open>ma\<close> is on display; the request for \<open>matr\<close> is started, then the request
  for \<open>matri\<close>, which aborts it; when the aborted request settles, the \<^verbatim>\<open>catch\<close>
  block empties the current suggestions and puts "No movies found" in place of the list
  on display. On the recommendations channel: the callback of
  \<^verbatim>\<open>loadPersonalizedRecommendations\<close> runs twice, the second run aborting the
  controller of the first; the \<^verbatim>\<open>fetch\<close> was given no signal, so when the answer to
  the first request comes in after the answer to the second, it replaces it on the page.
\<close>

theorem stale_completion_changes_the_page:
  "suggestions_content
     (fst (getSearchSuggestions ''matri'' 1200
        (fst (getSearchSuggestions ''matr'' 1000
           (fst (getSearchSuggestions ''ma'' 0 initial_app))))))
     \<noteq> [] \<and>
   aborted
     (fst (getSearchSuggestions ''matri'' 1200
        (fst (getSearchSuggestions ''matr'' 1000
           (fst (getSearchSuggestions ''ma'' 0 initial_app))))))
     = [0] \<and>
   suggestions_content
     (suggestions_settled 0 ''matr|en|1'' (Resolved (Array [plain_movie ''The Matrix'' 603])) 1300
        (fst (getSearchSuggestions ''matri'' 1200
           (fst (getSearchSuggestions ''matr'' 1000
              (fst (getSearchSuggestions ''ma'' 0 initial_app)))))))
     = [] \<and>
   aborted (personalized_started (personalized_started initial_app)) = [0] \<and>
   user_recommendation_movies
     (personalized_settled (Resolved (Array [plain_movie ''Titanic'' 597]))
        (personalized_settled (Resolved (Array [plain_movie ''Inception'' 27205]))
           (personalized_started (personalized_started initial_app))))
     = Cards [plain_movie ''Titanic'' 597]"
  using aborted_suggestion_request_clears_the_list stale_personalised_recommendations_are_shown
  by auto

subsection \<open>Cache keys\<close>


























text \<open>
  The condition on the language codes is needed for the keys to differ: a list whose one
  entry had a comma in it, which neither the selector nor the locale supplies, would be
  joined to the same text as the list of its two parts.
\<close>

lemma joined_language_lists_agree:
  "[''en'', ''hi''] \<noteq> [''en,hi''] \<and>
   suggestionCacheKey ''heat'' (initial_profile\<lparr>language := [''en'', ''hi'']\<rparr>)
     = suggestionCacheKey ''heat'' (initial_profile\<lparr>language := [''en,hi'']\<rparr>) \<and>
   searchCacheKey ''heat'' (initial_profile\<lparr>language := [''en'', ''hi'']\<rparr>)
     = searchCacheKey ''heat'' (initial_profile\<lparr>language := [''en,hi'']\<rparr>)"
  by (simp add: suggestionCacheKey_def searchCacheKey_def)



end
